theory Spec2Isabelle
  imports Main "HOL-Library.AList"
begin

section \<open>Shared vocabulary\<close>

text \<open>
  A JavaScript object used as a dictionary is an association list: \<open>_.each\<close> visits
  the entries in list order, \<open>obj[key]\<close> is \<open>map_of\<close> (\<open>undefined\<close> for a key that the
  object does not hold; the properties that every object inherits from its prototype are
  not modelled), and the keys of a well-formed object are distinct.  JavaScript numbers
  are modelled as \<open>int\<close> (all times are integral milliseconds, all positions integral
  frames).
  Deep equality (\<open>_.isEqual\<close>) is HOL equality on the modelled values.
\<close>

type_synonym 'v dict = "(string \<times> 'v) list"

definition keys :: "'v dict \<Rightarrow> string list" where
  "keys d = map fst d"

text \<open>Truthiness of an optional number (\<open>undefined\<close>, \<open>null\<close> and \<open>0\<close> are falsy)
  and of an optional string (\<open>undefined\<close> and the empty string are falsy).\<close>

fun truthy_num :: "int option \<Rightarrow> bool" where
  "truthy_num None = False"
| "truthy_num (Some n) = (n \<noteq> 0)"

fun truthy_str :: "string option \<Rightarrow> bool" where
  "truthy_str None = False"
| "truthy_str (Some s) = (s \<noteq> [])"

text \<open>\<open>xs[0]\<close>, which is \<open>undefined\<close> for an empty array.\<close>

definition first :: "'a list \<Rightarrow> 'a option" where
  "first xs = (case xs of [] \<Rightarrow> None | x # _ \<Rightarrow> Some x)"

text \<open>\<open>ResolvedTimelineObjectInstance\<close>: \<open>id\<close> is \<open>obj_id\<close>, \<open>instance.start\<close> is
  \<open>instance_start\<close>.\<close>

record 'c ResolvedTimelineObjectInstance =
  obj_id :: string
  content :: 'c
  instance_start :: int
  isLookahead :: bool
  lookaheadForLayer :: "string option"

record 'c TimelineState =
  time :: int
  layers :: "'c ResolvedTimelineObjectInstance dict"

section \<open>The Quantel device: state and differ\<close>

definition IDEAL_PREPARE_TIME :: int where "IDEAL_PREPARE_TIME = 1000"
definition PREPARE_TIME_WAIT :: int where "PREPARE_TIME_WAIT = 50"
definition SOFT_JUMP_WAIT_TIME :: int where "SOFT_JUMP_WAIT_TIME = 100"
definition DEFAULT_FPS :: int where "DEFAULT_FPS = 50"
definition JUMP_ERROR_MARGIN :: int where "JUMP_ERROR_MARGIN = 5"

datatype QuantelControlMode = QUALITY | SPEED

text \<open>\<open>QuantelStatePortClip\<close>; the field \<open>length\<close> of the source is \<open>clip_length\<close>
  here, \<open>playing\<close> is \<open>clip_playing\<close>.\<close>

record QuantelStatePortClip =
  title :: string
  clipId :: "int option"
  clip_playing :: bool
  playTime :: "int option"
  pauseTime :: "int option"
  inPoint :: "int option"
  clip_length :: "int option"

record QuantelStatePort =
  timelineObjId :: string
  clip :: "QuantelStatePortClip option"
  mode :: QuantelControlMode
  channels :: "int list"

text \<open>\<open>QuantelState\<close>: fields \<open>time\<close> and \<open>port\<close> of the source.\<close>

record QuantelState =
  q_time :: int
  q_port :: "QuantelStatePort dict"

datatype QuantelCommandType =
  SETUPPORT | LOADCLIPFRAGMENTS | PLAYCLIP | PAUSECLIP | CLEARCLIP | RELEASEPORT

text \<open>\<open>QuantelCommand\<close>: the common base fields, and the fields of the variants as
  options (\<open>channel\<close> for SETUPPORT, \<open>clip\<close> and \<open>timeOfPlay\<close> for LOADCLIPFRAGMENTS,
  \<open>clip\<close> and \<open>mode\<close> for PLAYCLIP and PAUSECLIP).\<close>

record QuantelCommand =
  cmd_type :: QuantelCommandType
  cmd_time :: int
  cmd_portId :: string
  cmd_timelineObjId :: string
  cmd_channel :: "int option"
  cmd_clip :: "QuantelStatePortClip option"
  cmd_timeOfPlay :: "int option"
  cmd_mode :: "QuantelControlMode option"

definition mkCommand :: "QuantelCommandType \<Rightarrow> int \<Rightarrow> string \<Rightarrow> string \<Rightarrow> QuantelCommand" where
  "mkCommand ty t pid oid =
     \<lparr>cmd_type = ty, cmd_time = t, cmd_portId = pid, cmd_timelineObjId = oid,
      cmd_channel = None, cmd_clip = None, cmd_timeOfPlay = None, cmd_mode = None\<rparr>"

text \<open>The time of when to run "preparation" commands.\<close>

definition prepareTime :: "int \<Rightarrow> int \<Rightarrow> int" where
  "prepareTime oldTime t =
     min t (max (t - IDEAL_PREPARE_TIME) (oldTime + PREPARE_TIME_WAIT))"

text \<open>The body of the first \<open>_.each\<close> of \<open>QuantelDevice._diffStates\<close>, for one port
  of the new state.\<close>

definition diffNewPort ::
  "QuantelState \<Rightarrow> int \<Rightarrow> string \<times> QuantelStatePort \<Rightarrow> QuantelCommand list" where
  "diffNewPort oldState t e =
     (case e of (portId, newPort) \<Rightarrow>
      let oldPort = map_of (q_port oldState) portId;
          pt = prepareTime (q_time oldState) t in
      (if (case oldPort of None \<Rightarrow> True | Some op \<Rightarrow> channels newPort \<noteq> channels op)
       then (let channel = first (channels newPort) in
             if truthy_num channel
             then [(mkCommand SETUPPORT pt portId (timelineObjId newPort))
                     \<lparr>cmd_channel := channel\<rparr>]
             else [])
       else [])
      @
      (if (case oldPort of None \<Rightarrow> True | Some op \<Rightarrow> clip newPort \<noteq> clip op)
       then (case clip newPort of
               Some c \<Rightarrow>
                 [(mkCommand LOADCLIPFRAGMENTS pt portId (timelineObjId newPort))
                    \<lparr>cmd_clip := Some c, cmd_timeOfPlay := Some t\<rparr>,
                  (mkCommand (if clip_playing c then PLAYCLIP else PAUSECLIP) t portId
                     (timelineObjId newPort))
                    \<lparr>cmd_clip := Some c, cmd_mode := Some (mode newPort)\<rparr>]
             | None \<Rightarrow> [mkCommand CLEARCLIP t portId (timelineObjId newPort)])
       else []))"

text \<open>The body of the second \<open>_.each\<close>, for one port of the old state.\<close>

definition diffOldPort ::
  "QuantelState \<Rightarrow> QuantelState \<Rightarrow> int \<Rightarrow> string \<times> QuantelStatePort \<Rightarrow> QuantelCommand list" where
  "diffOldPort oldState newState t e =
     (case e of (portId, oldPort) \<Rightarrow>
      (case map_of (q_port newState) portId of
         None \<Rightarrow> [mkCommand RELEASEPORT (prepareTime (q_time oldState) t) portId
                    (timelineObjId oldPort)]
       | Some _ \<Rightarrow> []))"

definition quantel_diffStates ::
  "QuantelState \<Rightarrow> QuantelState \<Rightarrow> int \<Rightarrow> QuantelCommand list" where
  "quantel_diffStates oldState newState t =
     concat (map (diffNewPort oldState t) (q_port newState))
     @ concat (map (diffOldPort oldState newState t) (q_port oldState))"

definition is_prepare :: "QuantelCommand \<Rightarrow> bool" where
  "is_prepare c = (cmd_type c \<in> {SETUPPORT, LOADCLIPFRAGMENTS, RELEASEPORT})"

section \<open>The HTTP-send device\<close>

datatype HttpMethod = GET | POST | PUT | DELETE

text \<open>\<open>HTTPSendCommandContent\<close>; the field \<open>type\<close> of the source is \<open>http_type\<close>.
  The JSON body \<open>params\<close> is a value of any type \<open>'p\<close>, compared by deep equality.\<close>

record 'p HTTPSendCommandContent =
  http_type :: HttpMethod
  url :: string
  params :: "'p option"
  temporalPriority :: "int option"
  queueId :: "string option"

datatype CommandName = added | changed | removed

text \<open>The interface \<open>Command\<close> of the HTTP device; its fields \<open>content\<close>,
  \<open>context\<close> and \<open>timelineObjId\<close> carry the prefix \<open>command_\<close> here.\<close>

record 'p Command =
  commandName :: CommandName
  command_content :: "'p HTTPSendCommandContent"
  command_context :: string
  command_timelineObjId :: string
  layer :: string

type_synonym 'p HTTPSendState = "'p HTTPSendCommandContent TimelineState"

text \<open>The body of the first \<open>_.each\<close> of \<open>HTTPSendDevice._diffStates\<close>.\<close>

definition diffNewLayer ::
  "'p HTTPSendState \<Rightarrow> string \<times> 'p HTTPSendCommandContent ResolvedTimelineObjectInstance
   \<Rightarrow> 'p Command list" where
  "diffNewLayer oldhttpSendState e =
     (case e of (layerKey, newLayer) \<Rightarrow>
      (case map_of (layers oldhttpSendState) layerKey of
         None \<Rightarrow>
           [\<lparr>commandName = added, command_content = content newLayer,
             command_context = ''added: '' @ obj_id newLayer,
             command_timelineObjId = obj_id newLayer, layer = layerKey\<rparr>]
       | Some oldLayer \<Rightarrow>
           if content oldLayer \<noteq> content newLayer
           then [\<lparr>commandName = changed, command_content = content newLayer,
                  command_context = ''changed: '' @ obj_id newLayer @ '' (previously: '' @ obj_id oldLayer @ '')'',
                  command_timelineObjId = obj_id newLayer, layer = layerKey\<rparr>]
           else []))"

text \<open>The body of the second \<open>_.each\<close>.\<close>

definition diffOldLayer ::
  "'p HTTPSendState \<Rightarrow> string \<times> 'p HTTPSendCommandContent ResolvedTimelineObjectInstance
   \<Rightarrow> 'p Command list" where
  "diffOldLayer newhttpSendState e =
     (case e of (layerKey, oldLayer) \<Rightarrow>
      (case map_of (layers newhttpSendState) layerKey of
         None \<Rightarrow>
           [\<lparr>commandName = removed, command_content = content oldLayer,
             command_context = ''removed: '' @ obj_id oldLayer,
             command_timelineObjId = obj_id oldLayer, layer = layerKey\<rparr>]
       | Some _ \<Rightarrow> []))"

text \<open>\<open>a.content.temporalPriority || 0\<close>.\<close>

definition priority :: "'p Command \<Rightarrow> int" where
  "priority c = (case temporalPriority (command_content c) of None \<Rightarrow> 0 | Some n \<Rightarrow> if n \<noteq> 0 then n else 0)"

text \<open>
  \<open>Array.prototype.sort\<close> is a stable sort, as \<open>sort_key\<close> is.  The order that
  \<open>localeCompare\<close> puts on layer names depends on the locale: it is given by a
  collation key \<open>collate\<close>, a parameter of the model.
\<close>

definition http_diffStates ::
  "(string \<Rightarrow> 'k::linorder) \<Rightarrow> 'p HTTPSendState \<Rightarrow> 'p HTTPSendState \<Rightarrow> 'p Command list" where
  "http_diffStates collate oldhttpSendState newhttpSendState =
     (let commands =
            concat (map (diffNewLayer oldhttpSendState) (layers newhttpSendState))
            @ concat (map (diffOldLayer newhttpSendState) (layers oldhttpSendState));
          commands1 = sort_key (\<lambda>c. collate (layer c)) commands
      in sort_key priority commands1)"

text \<open>\<open>convertStateToHttpSend\<close> has the device's mappings at hand and does not use them.\<close>

definition convertStateToHttpSend :: "'m dict \<Rightarrow> 'p HTTPSendState \<Rightarrow> 'p HTTPSendState" where
  "convertStateToHttpSend mappings state = state"

subsection \<open>Initialisation, the queued callback and the default command receiver\<close>

record 'p HTTPSendOptions =
  opt_makeReadyCommands :: "'p HTTPSendCommandContent list option"
  opt_makeReadyDoesReset :: "bool option"
  opt_resendTime :: "int option"

text \<open>The private fields of \<open>HTTPSendDevice\<close> (without their leading underscore).\<close>

record 'p HTTPSendDevice =
  makeReadyCommands :: "'p HTTPSendCommandContent list"
  makeReadyDoesReset :: bool
  resendTime :: "int option"
  activeLayers :: "string \<rightharpoonup> string"

definition http_init :: "'p HTTPSendOptions \<Rightarrow> 'p HTTPSendDevice \<Rightarrow> 'p HTTPSendDevice" where
  "http_init initOptions dev =
     dev\<lparr>makeReadyCommands :=
           (case opt_makeReadyCommands initOptions of None \<Rightarrow> [] | Some cs \<Rightarrow> cs),
         makeReadyDoesReset :=
           (case opt_makeReadyDoesReset initOptions of None \<Rightarrow> False | Some b \<Rightarrow> b),
         resendTime :=
           (case opt_resendTime initOptions of
              None \<Rightarrow> None
            | Some r \<Rightarrow> if r \<noteq> 0 \<and> r > 1 then Some r else None)\<rparr>"

text \<open>A call of the command receiver: its five arguments.\<close>

record 'p ReceiverCall =
  rc_time :: int
  rc_cmd :: "'p HTTPSendCommandContent"
  rc_context :: string
  rc_timelineObjId :: string
  rc_layer :: "string option"

text \<open>
  The callback that \<open>_addToQueue\<close> queues for a command, run when the command fires.
  It returns the call of the command receiver it makes (none for \<open>null\<close>) and the
  device with its \<open>activeLayers\<close> updated.  \<open>JSON.stringify\<close> is the parameter
  \<open>stringify\<close>.
\<close>

definition queuedCallback ::
  "('p HTTPSendCommandContent \<Rightarrow> string) \<Rightarrow> int \<Rightarrow> 'p Command \<Rightarrow> 'p HTTPSendDevice
   \<Rightarrow> 'p ReceiverCall option \<times> 'p HTTPSendDevice" where
  "queuedCallback stringify t cmd dev =
     (if commandName cmd = added \<or> commandName cmd = changed
      then (Some \<lparr>rc_time = t, rc_cmd = command_content cmd, rc_context = command_context cmd,
                  rc_timelineObjId = command_timelineObjId cmd, rc_layer = Some (layer cmd)\<rparr>,
            dev\<lparr>activeLayers := (activeLayers dev)(layer cmd \<mapsto> stringify (command_content cmd))\<rparr>)
      else (None, dev\<lparr>activeLayers := (activeLayers dev)(layer cmd := None)\<rparr>))"

text \<open>
  What the network and the rest of the device do around one HTTP request: the reply
  (a response with its status code, or an error with its \<open>code\<close> when it has one),
  the time \<open>Date.now() - t\<close> that had elapsed when the error was caught, and the
  \<open>activeLayers\<close> map as it stands when the resend timer has run out.
\<close>

datatype reply = Response int | RequestError "string option"

record attempt =
  reply :: reply
  elapsed :: int
  layersAtRetry :: "string \<rightharpoonup> string"

text \<open>What the receiver does, in order: HTTP requests, signals, timers.\<close>

datatype 'p event =
    Request "'p HTTPSendCommandContent"
  | EmitWarning
  | EmitError
  | EmitCommandError
  | SetTimeout int

definition retryCodes :: "string list" where
  "retryCodes = [''ETIMEDOUT'', ''ECONNRESET'', ''EADDRINUSE'', ''ECONNREFUSED'', ''EPIPE'',
                 ''ENOTFOUND'', ''ENETUNREACH'', ''EHOSTUNREACH'', ''EAI_AGAIN'']"

text \<open>The guard at the head of \<open>_defaultCommandReceiver\<close>: true when it returns at once.\<close>

definition noLongerRelevant ::
  "('p HTTPSendCommandContent \<Rightarrow> string) \<Rightarrow> (string \<rightharpoonup> string) \<Rightarrow> 'p HTTPSendCommandContent
   \<Rightarrow> string option \<Rightarrow> bool" where
  "noLongerRelevant stringify al cmd layer' =
     (case layer' of
        None \<Rightarrow> False
      | Some l \<Rightarrow> if l \<noteq> [] then al l \<noteq> Some (stringify cmd) else False)"

text \<open>
  \<open>_defaultCommandReceiver\<close>, run against the list of what happens at its successive
  requests.  The recursive call is the resend; a request that the list has no entry for
  stays unanswered.  Debug output is left out.
\<close>

fun defaultCommandReceiver ::
  "('p HTTPSendCommandContent \<Rightarrow> string) \<Rightarrow> int option \<Rightarrow> (string \<rightharpoonup> string)
   \<Rightarrow> 'p HTTPSendCommandContent \<Rightarrow> string option \<Rightarrow> attempt list \<Rightarrow> 'p event list" where
  "defaultCommandReceiver stringify resend al cmd layer' [] =
     (if noLongerRelevant stringify al cmd layer' then [] else [Request cmd])"
| "defaultCommandReceiver stringify resend al cmd layer' (a # world) =
     (if noLongerRelevant stringify al cmd layer' then []
      else Request cmd #
        (case reply a of
           Response statusCode \<Rightarrow> if statusCode = 200 then [] else [EmitWarning]
         | RequestError code \<Rightarrow>
             EmitError # EmitCommandError #
             (case code of
                None \<Rightarrow> []
              | Some c \<Rightarrow>
                  if c \<in> set retryCodes \<and> truthy_num resend
                  then SetTimeout (max ((case resend of Some r \<Rightarrow> r | None \<Rightarrow> 0) - elapsed a) 0) #
                       defaultCommandReceiver stringify resend (layersAtRetry a) cmd layer' world
                  else [])))"

definition requests :: "'p event list \<Rightarrow> 'p HTTPSendCommandContent list" where
  "requests evs = concat (map (\<lambda>e. case e of Request c \<Rightarrow> [c] | _ \<Rightarrow> []) evs)"


text \<open>
  A command firing from the queue of a device whose command receiver is the default one:
  the queued callback, then the receiver call it makes, if any.
\<close>

definition fireWithDefaultReceiver ::
  "('p HTTPSendCommandContent \<Rightarrow> string) \<Rightarrow> int \<Rightarrow> 'p Command \<Rightarrow> 'p HTTPSendDevice
   \<Rightarrow> attempt list \<Rightarrow> 'p event list \<times> 'p HTTPSendDevice" where
  "fireWithDefaultReceiver stringify t cmd dev world =
     (case queuedCallback stringify t cmd dev of
        (None, dev') \<Rightarrow> ([], dev')
      | (Some rc, dev') \<Rightarrow>
          (defaultCommandReceiver stringify (resendTime dev') (activeLayers dev')
             (rc_cmd rc) (rc_layer rc) world, dev'))"

section \<open>The Quantel device: initialisation\<close>

record QuantelOptions =
  gatewayUrl :: "string option"
  ISAUrl :: "string option"
  zoneId :: "string option"
  serverId :: "int option"

datatype init_error = BadConnectionOption string | GatewayInitRejected

text \<open>The calls that \<open>init\<close> makes on the gateway, with their arguments.\<close>

datatype gateway_call =
    GatewayInit "string option" "string option" "string option" "int option"
  | MonitorServerStatus

text \<open>
  \<open>QuantelDevice.init\<close>.  The gateway's own \<open>init\<close> is the parameter \<open>gatewayAccepts\<close>:
  whether it resolves for the four arguments.  The result is the list of the calls made
  on the gateway and the outcome: the error thrown, or \<open>true\<close>.
\<close>

definition quantel_init ::
  "(string option \<Rightarrow> string option \<Rightarrow> string option \<Rightarrow> int option \<Rightarrow> bool) \<Rightarrow> QuantelOptions
   \<Rightarrow> gateway_call list \<times> (init_error + bool)" where
  "quantel_init gatewayAccepts connectionOptions =
     (if \<not> truthy_str (gatewayUrl connectionOptions)
      then ([], Inl (BadConnectionOption ''gatewayUrl''))
      else if \<not> truthy_str (ISAUrl connectionOptions)
      then ([], Inl (BadConnectionOption ''ISAUrl''))
      else if \<not> truthy_num (serverId connectionOptions)
      then ([], Inl (BadConnectionOption ''serverId''))
      else if gatewayAccepts (gatewayUrl connectionOptions) (ISAUrl connectionOptions)
                (zoneId connectionOptions) (serverId connectionOptions)
      then ([GatewayInit (gatewayUrl connectionOptions) (ISAUrl connectionOptions)
               (zoneId connectionOptions) (serverId connectionOptions),
             MonitorServerStatus], Inr True)
      else ([GatewayInit (gatewayUrl connectionOptions) (ISAUrl connectionOptions)
               (zoneId connectionOptions) (serverId connectionOptions)],
            Inl GatewayInitRejected))"

section \<open>Mappings and the Quantel projector\<close>

datatype DeviceType = CASPARCG | HTTPSEND | QUANTEL | OTHER_DEVICE

text \<open>
  A \<open>Mapping\<close> with the optional properties that the devices look at: \<open>portId\<close>,
  \<open>channelId\<close> and \<open>mode\<close> of \<open>MappingQuantel\<close>, \<open>channel\<close> and \<open>layer\<close> of
  \<open>MappingCasparCG\<close>.  A property that the object does not have is \<open>None\<close>, so
  \<open>_.has(mapping, 'portId')\<close> is \<open>m_portId mapping \<noteq> None\<close>.
\<close>

record Mapping =
  device :: DeviceType
  deviceId :: string
  m_portId :: "string option"
  m_channelId :: "int option"
  m_mode :: "QuantelControlMode option"
  m_channel :: "int option"
  m_layer :: "int option"

type_synonym Mappings = "Mapping dict"

text \<open>The content of a \<open>TimelineObjQuantelClip\<close>.\<close>

record QuantelClipContent =
  c_title :: "string option"
  c_pauseTime :: "int option"
  c_playing :: "bool option"
  c_inPoint :: "int option"
  c_length :: "int option"
  c_noStarttime :: bool

text \<open>The condition that both loops of \<open>convertStateToQuantel\<close> put on a mapping.\<close>

definition isQuantelMapping :: "Mapping \<Rightarrow> bool" where
  "isQuantelMapping mapping =
     (device mapping = QUANTEL \<and> m_portId mapping \<noteq> None \<and> m_channelId mapping \<noteq> None)"

text \<open>The first loop, "create ports from mappings": its body for one mapping.  A new key
  of an object comes last in its iteration order and an old one keeps its place, as with
  \<open>AList.update\<close>; \<open>_.sortBy(_.uniq(xs))\<close> is \<open>sort (remdups xs)\<close>.\<close>

definition portFromMapping :: "QuantelState \<Rightarrow> string \<times> Mapping \<Rightarrow> QuantelState" where
  "portFromMapping state e =
     (case e of (name, mapping) \<Rightarrow>
      if isQuantelMapping mapping
      then (case (m_portId mapping, m_channelId mapping) of
              (Some portId, Some channelId) \<Rightarrow>
                let port = (case map_of (q_port state) portId of
                              None \<Rightarrow> \<lparr>timelineObjId = [], clip = None,
                                        mode = (case m_mode mapping of None \<Rightarrow> QUALITY | Some md \<Rightarrow> md),
                                        channels = []\<rparr>
                            | Some p \<Rightarrow> p)
                in state\<lparr>q_port :=
                     AList.update portId
                       (port\<lparr>channels := sort (remdups (channels port @ [channelId]))\<rparr>)
                       (q_port state)\<rparr>
            | _ \<Rightarrow> state)
      else state)"

datatype projector_error = PortNotFound string

text \<open>The second loop: its body for one layer of the timeline.\<close>

definition convertLayer ::
  "Mappings \<Rightarrow> QuantelState \<Rightarrow> string \<times> QuantelClipContent ResolvedTimelineObjectInstance
   \<Rightarrow> projector_error + QuantelState" where
  "convertLayer mappings state e =
     (case e of (layerName, layer') \<Rightarrow>
      (case map_of mappings layerName of
         None \<Rightarrow> Inr state
       | Some foundMapping \<Rightarrow>
           if isQuantelMapping foundMapping
           then (case m_portId foundMapping of
                   None \<Rightarrow> Inr state
                 | Some portId \<Rightarrow>
                     (case map_of (q_port state) portId of
                        None \<Rightarrow> Inl (PortNotFound portId)
                      | Some port \<Rightarrow>
                          if truthy_str (c_title (content layer'))
                          then Inr (state\<lparr>q_port :=
                                 AList.update portId
                                   (port\<lparr>timelineObjId := obj_id layer',
                                         clip := Some
                                           \<lparr>title = (case c_title (content layer') of
                                                       None \<Rightarrow> [] | Some s \<Rightarrow> s),
                                            clipId = None,
                                            clip_playing = (case c_playing (content layer') of
                                                              None \<Rightarrow> True | Some b \<Rightarrow> b),
                                            playTime =
                                              (if c_noStarttime (content layer') then None
                                               else if instance_start layer' \<noteq> 0
                                               then Some (instance_start layer') else None),
                                            pauseTime = c_pauseTime (content layer'),
                                            inPoint = c_inPoint (content layer'),
                                            clip_length = c_length (content layer')\<rparr>\<rparr>)
                                   (q_port state)\<rparr>)
                          else Inr state))
           else Inr state))"

fun convertLayers ::
  "Mappings \<Rightarrow> QuantelClipContent ResolvedTimelineObjectInstance dict \<Rightarrow> QuantelState
   \<Rightarrow> projector_error + QuantelState" where
  "convertLayers mappings [] state = Inr state"
| "convertLayers mappings (e # es) state =
     (case convertLayer mappings state e of
        Inl err \<Rightarrow> Inl err
      | Inr state' \<Rightarrow> convertLayers mappings es state')"

definition convertStateToQuantel ::
  "Mappings \<Rightarrow> QuantelClipContent TimelineState \<Rightarrow> projector_error + QuantelState" where
  "convertStateToQuantel mappings timelineState =
     convertLayers mappings (layers timelineState)
       (foldl portFromMapping \<lparr>q_time = time timelineState, q_port = []\<rparr> mappings)"

text \<open>The layers of a timeline that have a mapping for the Quantel device.\<close>

definition hasQuantelMapping :: "Mappings \<Rightarrow> string \<times> 'a \<Rightarrow> bool" where
  "hasQuantelMapping mappings e =
     (case map_of mappings (fst e) of None \<Rightarrow> False | Some m \<Rightarrow> isQuantelMapping m)"

section \<open>The CasparCG projector\<close>

text \<open>
  The content of a CasparCG timeline object: the variant that \<open>content.type\<close> selects,
  with the properties that \<open>convertStateToCaspar\<close> reads, and the \<open>transitions\<close> and
  \<open>mixer\<close> of \<open>TimelineObjCCGProducerContentBase\<close>.  Values that the projector only
  passes on (template data, mixer values) are kept as text.
\<close>

datatype CasparContentBody =
    MEDIA (ccg_file: string) (loop: "bool option") (seek: "int option") (ccg_inPoint: "int option")
      (ccg_length: "int option") (noStarttime: "bool option") (ccg_pauseTime: "int option")
      (ccg_playing: "bool option") (channelLayout: "string option")
  | IP (uri: string) (channelLayout: "string option")
  | INPUT (input_device: int) (channelLayout: "string option")
  | TEMPLATE (template_name: string) (ccg_templateType: "string option") (template_data: "string option")
      (useStopCommand: "bool option")
  | HTMLPAGE (page_url: string)
  | ROUTE (mappedLayer: "string option") (route_channel: "int option") (route_layer: "int option")
      (route_mode: "string option") (channelLayout: "string option")
  | RECORD (ccg_file: string) (ccg_encoderOptions: "string option")
  | OTHER_TYPE

record TimelineTransition =
  tt_type :: string
  tt_duration :: "int option"
  tt_maskFile :: "string option"
  tt_easing :: "string option"
  tt_delay :: "int option"
  tt_direction :: "string option"
  tt_overlayFile :: "string option"

record TimelineTransitions =
  inTransition :: "TimelineTransition option"
  outTransition :: "TimelineTransition option"

type_synonym Mixer = "string dict"

record CasparContent =
  body :: CasparContentBody
  transitions :: "TimelineTransitions option"
  mixer :: "Mixer option"

text \<open>A value that is a number, a string or \<open>undefined\<close>: an argument of
  \<open>new StateNS.Transition\<close>, which is recorded with its four arguments.\<close>

datatype js_value = Num int | Str string | Undefined

record Transition =
  tr_type :: string
  tr_arg2 :: js_value
  tr_arg3 :: js_value
  tr_arg4 :: js_value

definition newTransition :: "TimelineTransition \<Rightarrow> Transition" where
  "newTransition tt =
     \<lparr>tr_type = tt_type tt,
      tr_arg2 = (if truthy_num (tt_duration tt)
                 then (case tt_duration tt of Some d \<Rightarrow> Num d | None \<Rightarrow> Undefined)
                 else (case tt_maskFile tt of Some s \<Rightarrow> Str s | None \<Rightarrow> Undefined)),
      tr_arg3 = (if truthy_str (tt_easing tt)
                 then (case tt_easing tt of Some s \<Rightarrow> Str s | None \<Rightarrow> Undefined)
                 else (case tt_delay tt of Some d \<Rightarrow> Num d | None \<Rightarrow> Undefined)),
      tr_arg4 = (if truthy_str (tt_direction tt)
                 then (case tt_direction tt of Some s \<Rightarrow> Str s | None \<Rightarrow> Undefined)
                 else (case tt_overlayFile tt of Some s \<Rightarrow> Str s | None \<Rightarrow> Undefined))\<rparr>"

datatype LayerContentType =
  L_MEDIA | L_INPUT | L_TEMPLATE | L_HTMLPAGE | L_ROUTE | L_RECORD | NOTHING

datatype MediaRef =
    Media string
  | TransitionObject "MediaRef option" "Transition option" "Transition option"

text \<open>
  A layer of the CasparCG state (\<open>StateNS.ILayerBase\<close> and its variants), without its
  \<open>nextUp\<close>: the properties that the projector sets, \<open>None\<close> where it sets none.
  The source's \<open>content\<close>, \<open>playing\<close>, \<open>playTime\<close>, \<open>pauseTime\<close>, \<open>seek\<close>, \<open>inPoint\<close>,
  \<open>length\<close>, \<open>channelLayout\<close>, \<open>mode\<close> and \<open>mixer\<close> carry the prefix \<open>sl_\<close> here.
\<close>

record ILayerBase =
  layerNo :: int
  sl_content :: LayerContentType
  media :: "MediaRef option"
  sl_playing :: bool
  sl_playTime :: "int option"
  sl_pauseTime :: "int option"
  looping :: "bool option"
  sl_seek :: "int option"
  sl_inPoint :: "int option"
  sl_length :: "int option"
  sl_channelLayout :: "string option"
  input :: "(int \<times> string option) option"
  templateType :: "string option"
  templateData :: "string option"
  cgStop :: "bool option"
  route :: "(int \<times> int option \<times> string option) option"
  sl_mode :: "string option"
  encoderOptions :: "string option"
  sl_mixer :: "Mixer option"

text \<open>\<open>StateNS.NextUp\<close>: a layer with the flag \<open>auto\<close>.\<close>

record NextUp =
  nu_layer :: ILayerBase
  auto :: bool

text \<open>A layer as it stands in a channel: its own properties and its \<open>nextUp\<close> slot.\<close>

record StateLayer =
  sl_layer :: ILayerBase
  nextUp :: "NextUp option"

text \<open>\<open>StateNS.Channel\<close>; \<open>fps\<close> is the fraction \<open>25 / 1000\<close>, kept as a pair.\<close>

record Channel =
  channelNo :: int
  fps :: "int \<times> int"
  ch_layers :: "int \<rightharpoonup> StateLayer"

record CasparState =
  channels :: "int \<rightharpoonup> Channel"

definition newChannel :: Channel where
  "newChannel = \<lparr>channelNo = 1, fps = (0, 1), ch_layers = Map.empty\<rparr>"

text \<open>The empty layer \<open>{layerNo, content: NOTHING, playing: false, pauseTime: 0}\<close>.\<close>

definition emptyLayer :: "int \<Rightarrow> ILayerBase" where
  "emptyLayer n =
     \<lparr>layerNo = n, sl_content = NOTHING, media = None, sl_playing = False, sl_playTime = None,
      sl_pauseTime = Some 0, looping = None, sl_seek = None, sl_inPoint = None, sl_length = None,
      sl_channelLayout = None, input = None, templateType = None, templateData = None,
      cgStop = None, route = None, sl_mode = None, encoderOptions = None, sl_mixer = None\<rparr>"

text \<open>\<open>x || null\<close> for a number, and the truth of an optional boolean.\<close>

definition orNull :: "int \<Rightarrow> int option" where
  "orNull n = (if n \<noteq> 0 then Some n else None)"

definition truthy_bool :: "bool option \<Rightarrow> bool" where
  "truthy_bool b = (b = Some True)"

text \<open>The layer "of appropriate type" that the projector creates for a timeline object,
  or \<open>null\<close>.\<close>

definition createStateLayer ::
  "Mappings \<Rightarrow> int \<Rightarrow> CasparContent ResolvedTimelineObjectInstance \<Rightarrow> ILayerBase option" where
  "createStateLayer mappings mappingLayer layer' =
     (case body (content layer') of
        MEDIA fl lp sk ip ln ns pt pl cl \<Rightarrow>
          Some ((emptyLayer mappingLayer)
            \<lparr>sl_content := L_MEDIA, media := Some (Media fl),
             sl_playTime :=
               (if truthy_bool ns \<or>
                   (truthy_bool lp \<and> \<not> truthy_num sk \<and> \<not> truthy_num ip \<and> \<not> truthy_num ln)
                then None else orNull (instance_start layer')),
             sl_pauseTime := (if truthy_num pt then pt else None),
             sl_playing := (case pl of None \<Rightarrow> True | Some b \<Rightarrow> b),
             looping := lp, sl_seek := sk, sl_inPoint := ip, sl_length := ln,
             sl_channelLayout := cl\<rparr>)
      | IP u cl \<Rightarrow>
          Some ((emptyLayer mappingLayer)
            \<lparr>sl_content := L_MEDIA, media := Some (Media u), sl_channelLayout := cl,
             sl_playTime := None, sl_pauseTime := None, sl_playing := True, sl_seek := Some 0\<rparr>)
      | INPUT dv cl \<Rightarrow>
          Some ((emptyLayer mappingLayer)
            \<lparr>sl_content := L_INPUT, media := Some (Media ''decklink''), input := Some (dv, cl),
             sl_playing := True, sl_playTime := None, sl_pauseTime := None\<rparr>)
      | TEMPLATE nm tty dt usc \<Rightarrow>
          Some ((emptyLayer mappingLayer)
            \<lparr>sl_content := L_TEMPLATE, media := Some (Media nm),
             sl_playTime := orNull (instance_start layer'), sl_pauseTime := None,
             sl_playing := True,
             templateType := (if truthy_str tty then tty else Some ''html''),
             templateData := dt, cgStop := usc\<rparr>)
      | HTMLPAGE u \<Rightarrow>
          Some ((emptyLayer mappingLayer)
            \<lparr>sl_content := L_HTMLPAGE, media := Some (Media u),
             sl_playTime := orNull (instance_start layer'), sl_pauseTime := None,
             sl_playing := True\<rparr>)
      | ROUTE ml rc rl rm cl \<Rightarrow>
          (let routeMapping = (if truthy_str ml
                               then (case ml of Some l \<Rightarrow> map_of mappings l | None \<Rightarrow> None)
                               else None);
               rc' = (case routeMapping of Some m \<Rightarrow> m_channel m | None \<Rightarrow> rc);
               rl' = (case routeMapping of Some m \<Rightarrow> m_layer m | None \<Rightarrow> rl)
           in Some ((emptyLayer mappingLayer)
            \<lparr>sl_content := L_ROUTE, media := Some (Media ''route''),
             route := Some (case rc' of Some c \<Rightarrow> c | None \<Rightarrow> 0, rl', cl),
             sl_mode := (if truthy_str rm then rm else None),
             sl_playing := True, sl_playTime := None, sl_pauseTime := None\<rparr>))
      | RECORD fl eo \<Rightarrow>
          if instance_start layer' \<noteq> 0
          then Some ((emptyLayer mappingLayer)
            \<lparr>sl_content := L_RECORD, media := Some (Media fl), encoderOptions := eo,
             sl_playing := True, sl_playTime := Some (instance_start layer'),
             sl_pauseTime := None\<rparr>)
          else None
      | OTHER_TYPE \<Rightarrow> None)"

text \<open>Whether the \<open>switch\<close> on \<open>baseContent.type\<close> creates a transition object.\<close>

definition takesTransition :: "CasparContentBody \<Rightarrow> bool" where
  "takesTransition b =
     (case b of MEDIA _ _ _ _ _ _ _ _ _ \<Rightarrow> True | IP _ _ \<Rightarrow> True | TEMPLATE _ _ _ _ \<Rightarrow> True
      | INPUT _ _ \<Rightarrow> True | ROUTE _ _ _ _ _ \<Rightarrow> True | _ \<Rightarrow> False)"

text \<open>The state layer of a timeline object, complete: the created layer or else the empty
  one, with the transitions, the mixer and \<open>layerNo\<close> set.\<close>

definition makeStateLayer ::
  "Mappings \<Rightarrow> int \<Rightarrow> CasparContent ResolvedTimelineObjectInstance \<Rightarrow> ILayerBase" where
  "makeStateLayer mappings mappingLayer layer' =
     (let stateLayer = (case createStateLayer mappings mappingLayer layer' of
                          Some l \<Rightarrow> l | None \<Rightarrow> emptyLayer mappingLayer);
          stateLayer1 =
            (case transitions (content layer') of
               None \<Rightarrow> stateLayer
             | Some ts \<Rightarrow>
                 if takesTransition (body (content layer'))
                 then stateLayer\<lparr>media := Some (TransitionObject (media stateLayer)
                        (map_option newTransition (inTransition ts))
                        (map_option newTransition (outTransition ts)))\<rparr>
                 else stateLayer);
          stateLayer2 =
            (case mixer (content layer') of
               None \<Rightarrow> stateLayer1
             | Some mx \<Rightarrow> stateLayer1\<lparr>sl_mixer := Some mx\<rparr>)
      in stateLayer2\<lparr>layerNo := mappingLayer\<rparr>)"

text \<open>The mapping of a layer: its own, or else, for a lookahead, that of the layer it
  looks ahead for.\<close>

definition resolveMapping ::
  "Mappings \<Rightarrow> string \<Rightarrow> 'c ResolvedTimelineObjectInstance \<Rightarrow> Mapping option" where
  "resolveMapping mappings layerName layer' =
     (case map_of mappings layerName of
        Some m \<Rightarrow> Some m
      | None \<Rightarrow>
          if isLookahead layer' \<and> truthy_str (lookaheadForLayer layer')
          then (case lookaheadForLayer layer' of Some l \<Rightarrow> map_of mappings l | None \<Rightarrow> None)
          else None)"

definition isCasparMapping :: "Mapping \<Rightarrow> bool" where
  "isCasparMapping m = (device m = CASPARCG \<and> m_channel m \<noteq> None \<and> m_layer m \<noteq> None)"

text \<open>\<open>foundMapping.channel || 0\<close> and \<open>foundMapping.layer || 0\<close>.\<close>

definition mappingChannel :: "Mapping \<Rightarrow> int" where
  "mappingChannel m = (case m_channel m of Some c \<Rightarrow> c | None \<Rightarrow> 0)"

definition mappingLayer :: "Mapping \<Rightarrow> int" where
  "mappingLayer m = (case m_layer m of Some l \<Rightarrow> l | None \<Rightarrow> 0)"

text \<open>
  The body of the \<open>_.each\<close> of \<open>convertStateToCaspar\<close>, for one layer of the timeline.
  The channel is looked up under \<open>mapping.channel\<close> and stored under
  \<open>Number(mapping.channel) || 1\<close>.
\<close>

definition convertCasparLayer ::
  "Mappings \<Rightarrow> CasparState \<Rightarrow> string \<times> CasparContent ResolvedTimelineObjectInstance
   \<Rightarrow> CasparState" where
  "convertCasparLayer mappings caspar e =
     (case e of (layerName, layer') \<Rightarrow>
      (case resolveMapping mappings layerName layer' of
         None \<Rightarrow> caspar
       | Some foundMapping \<Rightarrow>
           if isCasparMapping foundMapping
           then
             (let mc = mappingChannel foundMapping;
                  ml = mappingLayer foundMapping;
                  channel0 = (case channels caspar mc of Some c \<Rightarrow> c | None \<Rightarrow> newChannel);
                  channel = channel0\<lparr>channelNo := (if mc \<noteq> 0 then mc else 1), fps := (25, 1000)\<rparr>;
                  stateLayer = makeStateLayer mappings ml layer';
                  newLayer =
                    (if \<not> isLookahead layer'
                     then \<lparr>sl_layer = stateLayer,
                           nextUp = (case ch_layers channel ml of
                                       None \<Rightarrow> None | Some prev \<Rightarrow> nextUp prev)\<rparr>
                     else (case ch_layers channel ml of
                             None \<Rightarrow> \<lparr>sl_layer = emptyLayer ml,
                                       nextUp = Some \<lparr>nu_layer = stateLayer, auto = False\<rparr>\<rparr>
                           | Some res \<Rightarrow>
                               res\<lparr>nextUp := Some \<lparr>nu_layer = stateLayer, auto = False\<rparr>\<rparr>))
              in caspar\<lparr>channels := (channels caspar)
                   (channelNo channel \<mapsto> channel\<lparr>ch_layers := (ch_layers channel)(ml \<mapsto> newLayer)\<rparr>)\<rparr>)
           else caspar))"

definition convertStateToCaspar ::
  "Mappings \<Rightarrow> CasparContent TimelineState \<Rightarrow> CasparState" where
  "convertStateToCaspar mappings timelineState =
     foldl (convertCasparLayer mappings) \<lparr>channels = Map.empty\<rparr> (layers timelineState)"

text \<open>The layer that a CasparCG state holds at a channel number and a layer number.\<close>

definition layerAt :: "CasparState \<Rightarrow> int \<Rightarrow> int \<Rightarrow> StateLayer option" where
  "layerAt caspar c l = (case channels caspar c of None \<Rightarrow> None | Some ch \<Rightarrow> ch_layers ch l)"

section \<open>The Quantel manager: tracked state and executor operations\<close>

text \<open>
  \<open>QuantelTrackedState\<close> and \<open>QuantelTrackedStatePort\<close>.  The fields \<open>inPoint\<close> and
  \<open>outPoint\<close> of a loaded-fragments entry are \<open>lf_inPoint\<close> and \<open>lf_outPoint\<close>; the fields
  \<open>clipId\<close> and \<open>port\<close> of the tracked state are \<open>ts_clipId\<close> and \<open>ts_port\<close>.
\<close>

record LoadedFragments =
  portInPoint :: int
  portOutPoint :: int
  lf_inPoint :: int
  lf_outPoint :: int

record QuantelTrackedStatePort =
  loadedFragments :: "int \<rightharpoonup> LoadedFragments"
  channel :: int
  offset :: int
  playing :: bool
  jumpOffset :: "int option"
  scheduledStop :: "int option"

record QuantelTrackedState =
  ts_clipId :: "string \<rightharpoonup> int"
  ts_port :: "string \<rightharpoonup> QuantelTrackedStatePort"

text \<open>What the gateway answers: the properties that the manager reads.  \<open>Frames\<close> is
  \<open>parseInt(clipData.Frames, 10)\<close>, \<open>None\<close> for \<open>NaN\<close>.\<close>

record PortStatus =
  endOfData :: "int option"

record ServerInfo =
  ident :: int
  pools :: "int list option"

record ClipData =
  ClipID :: int
  PoolID :: "int option"
  Frames :: "int option"

record Fragment =
  finish :: int

text \<open>The errors of an operation: a rejection by the gateway, with its \<open>status\<close> if it has
  one, and the errors that the manager throws itself.\<close>

datatype quantel_error =
    GatewayRejection "int option"
  | PortMissingInTrackedState string
  | ServerNotFound
  | ServerHasNoPools
  | ServerHasEmptyPools
  | ClipNotFoundOnServer string
  | UnableToDetermineClipId string
  | ClipNotFound int
  | ClipMissingPoolID int
  | PoolNotFoundOnServer int
  | PortNotFound' string
  | PortNotFoundAfterLoading string
  | FragmentsNotLoaded int

text \<open>The calls of the device protocol.\<close>

datatype gateway_op =
    GetPort string
  | CreatePort string int
  | ReleasePort string
  | GetServer
  | SearchClip string
  | GetClip int
  | GetClipFragments int "(int \<times> int) option"
  | LoadFragmentsOntoPort string "Fragment list" int
  | PortPrepareJump string int
  | PortTriggerJump string
  | PortHardJump string int
  | PortStop string "int option"
  | PortPlay string
  | PortClear string

text \<open>
  The world of the manager: the gateway and the two clocks.  Every answer may depend on
  the number of interactions that went before (the first argument), so that the same
  call can succeed once and be rejected later.  A rejection is \<open>Inl\<close> of its status.
\<close>

record Gateway =
  gw_getPort :: "nat \<Rightarrow> string \<Rightarrow> int option + PortStatus option"
  gw_createPort :: "nat \<Rightarrow> string \<Rightarrow> int \<Rightarrow> int option + unit"
  gw_releasePort :: "nat \<Rightarrow> string \<Rightarrow> int option + unit"
  gw_getServer :: "nat \<Rightarrow> int option + ServerInfo option"
  gw_searchClip :: "nat \<Rightarrow> string \<Rightarrow> int option + ClipData list"
  gw_getClip :: "nat \<Rightarrow> int \<Rightarrow> int option + ClipData option"
  gw_getClipFragments :: "nat \<Rightarrow> int \<Rightarrow> (int \<times> int) option \<Rightarrow> int option + Fragment list"
  gw_loadFragmentsOntoPort ::
    "nat \<Rightarrow> string \<Rightarrow> Fragment list \<Rightarrow> int \<Rightarrow> int option + PortStatus option"
  gw_portPrepareJump :: "nat \<Rightarrow> string \<Rightarrow> int \<Rightarrow> int option + unit"
  gw_portTriggerJump :: "nat \<Rightarrow> string \<Rightarrow> int option + unit"
  gw_portHardJump :: "nat \<Rightarrow> string \<Rightarrow> int \<Rightarrow> int option + unit"
  gw_portStop :: "nat \<Rightarrow> string \<Rightarrow> int option \<Rightarrow> int option + unit"
  gw_portPlay :: "nat \<Rightarrow> string \<Rightarrow> int option + unit"
  gw_portClear :: "nat \<Rightarrow> string \<Rightarrow> int option + unit"
  getCurrentTime :: "nat \<Rightarrow> int"
  dateNow :: "nat \<Rightarrow> int"

text \<open>
  What an operation does to the outside and to the tracked state, in order: a protocol
  call that was awaited and resolved, one that was awaited and rejected, a rejection that
  the operation caught and let pass, a call that was made and not awaited, a write to a
  field of the tracked state, and the reset of a prepared jump that is no longer valid.
\<close>

datatype tracked_field =
  F_port | F_loadedFragments | F_jumpOffset | F_offset | F_playing | F_scheduledStop | F_clipId

datatype manager_event =
    Acked gateway_op
  | Rejected gateway_op
  | Excused
  | NotAwaited gateway_op
  | Wrote tracked_field
  | Invalidated

text \<open>The manager: \<open>_quantelState\<close>, the data and the call count of its \<open>_cache\<close> (an
  entry is its end time and its value), the number of interactions with the world so
  far, and the history of events.\<close>

record Manager =
  quantelState :: QuantelTrackedState
  cache_data :: "string \<rightharpoonup> int \<times> int"
  cache_callCount :: nat
  tick :: nat
  history :: "manager_event list"

text \<open>An asynchronous operation of the manager: it resolves with a value or rejects with
  an error, and leaves the manager as the steps it has run have made it.\<close>

type_synonym 'a promise = "Manager \<Rightarrow> (quantel_error + 'a) \<times> Manager"

definition resolve :: "'a \<Rightarrow> 'a promise" where
  "resolve x s = (Inr x, s)"

definition reject :: "quantel_error \<Rightarrow> 'a promise" where
  "reject e s = (Inl e, s)"

definition andThen :: "'a promise \<Rightarrow> ('a \<Rightarrow> 'b promise) \<Rightarrow> 'b promise" where
  "andThen m f s = (case m s of (Inl e, s') \<Rightarrow> (Inl e, s') | (Inr x, s') \<Rightarrow> f x s')"

definition tryCatch :: "'a promise \<Rightarrow> (quantel_error \<Rightarrow> 'a promise) \<Rightarrow> 'a promise" where
  "tryCatch m h s = (case m s of (Inl e, s') \<Rightarrow> h e s' | (Inr x, s') \<Rightarrow> (Inr x, s'))"

text \<open>\<open>await this._quantel.op(...)\<close>.\<close>

definition await :: "gateway_op \<Rightarrow> (nat \<Rightarrow> int option + 'a) \<Rightarrow> 'a promise" where
  "await c answer s =
     (case answer (tick s) of
        Inl status \<Rightarrow>
          (Inl (GatewayRejection status),
           s\<lparr>tick := Suc (tick s), history := history s @ [Rejected c]\<rparr>)
      | Inr x \<Rightarrow> (Inr x, s\<lparr>tick := Suc (tick s), history := history s @ [Acked c]\<rparr>))"

text \<open>\<open>this._quantel.op(...)\<close> without \<open>await\<close>: the operation goes on at once, whatever
  becomes of the call.\<close>

definition notAwaited :: "gateway_op \<Rightarrow> (nat \<Rightarrow> int option + 'a) \<Rightarrow> unit promise" where
  "notAwaited c answer s =
     (Inr (), s\<lparr>tick := Suc (tick s), history := history s @ [NotAwaited c]\<rparr>)"

definition readClock :: "(nat \<Rightarrow> int) \<Rightarrow> int promise" where
  "readClock clock s = (Inr (clock (tick s)), s\<lparr>tick := Suc (tick s)\<rparr>)"

definition assign ::
  "tracked_field \<Rightarrow> (QuantelTrackedState \<Rightarrow> QuantelTrackedState) \<Rightarrow> unit promise" where
  "assign fld upd s =
     (Inr (), s\<lparr>quantelState := upd (quantelState s), history := history s @ [Wrote fld]\<rparr>)"

text \<open>An assignment to a field of \<open>trackedPort\<close>, the object that the tracked state holds
  for the port.\<close>

definition onPort ::
  "string \<Rightarrow> (QuantelTrackedStatePort \<Rightarrow> QuantelTrackedStatePort) \<Rightarrow> QuantelTrackedState
   \<Rightarrow> QuantelTrackedState" where
  "onPort portId upd q =
     (case ts_port q portId of
        None \<Rightarrow> q
      | Some tp \<Rightarrow> q\<lparr>ts_port := (ts_port q)(portId \<mapsto> upd tp)\<rparr>)"

definition invalidateJump :: "string \<Rightarrow> unit promise" where
  "invalidateJump portId s =
     (Inr (), s\<lparr>quantelState := onPort portId (\<lambda>tp. tp\<lparr>jumpOffset := None\<rparr>) (quantelState s),
               history := history s @ [Invalidated]\<rparr>)"

definition excuse :: "unit promise" where
  "excuse s = (Inr (), s\<lparr>history := history s @ [Excused]\<rparr>)"

subsection \<open>setupPort, releasePort, clearClip\<close>



definition getTrackedPort :: "string \<Rightarrow> QuantelTrackedStatePort promise" where
  "getTrackedPort portId s =
     (case ts_port (quantelState s) portId of
        None \<Rightarrow> reject (PortMissingInTrackedState portId) s
      | Some trackedPort \<Rightarrow> resolve trackedPort s)"


subsection \<open>The cache and the look-up of a clip\<close>

definition getServer :: "Gateway \<Rightarrow> ServerInfo promise" where
  "getServer g =
     andThen (await GetServer (gw_getServer g)) (\<lambda>server.
     (case server of
        None \<Rightarrow> reject ServerNotFound
      | Some sv \<Rightarrow>
          (case pools sv of
             None \<Rightarrow> reject ServerHasNoPools
           | Some ps \<Rightarrow> if ps = [] then reject ServerHasEmptyPools else resolve sv)))"

text \<open>\<open>Cache.exists\<close>, \<open>Cache.get\<close> and \<open>Cache.set\<close>; each reads \<open>Date.now()\<close>.  The sweep that
  \<open>set\<close> starts on every 101st call runs from a timer, after the operation, and removes
  only entries that \<open>exists\<close> and \<open>get\<close> no longer see: it is left out.\<close>

definition cache_exists :: "Gateway \<Rightarrow> string \<Rightarrow> bool promise" where
  "cache_exists g key =
     andThen (readClock (dateNow g)) (\<lambda>now s.
       resolve (case cache_data s key of None \<Rightarrow> False | Some (endTime, v) \<Rightarrow> now \<le> endTime) s)"

definition cache_get :: "Gateway \<Rightarrow> string \<Rightarrow> int option promise" where
  "cache_get g key =
     andThen (readClock (dateNow g)) (\<lambda>now s.
       resolve (case cache_data s key of
                  None \<Rightarrow> None
                | Some (endTime, v) \<Rightarrow> if now \<le> endTime then Some v else None) s)"

definition cache_set :: "Gateway \<Rightarrow> string \<Rightarrow> int \<Rightarrow> int \<Rightarrow> int option promise" where
  "cache_set g key v ttl =
     andThen (readClock (dateNow g)) (\<lambda>now s.
       resolve (Some v)
         (s\<lparr>cache_data := (cache_data s)(key \<mapsto> (now + ttl, v)),
            cache_callCount :=
              (if 100 < Suc (cache_callCount s) then 0 else Suc (cache_callCount s))\<rparr>))"

text \<open>\<open>Cache.getSet\<close> for a function that returns a promise, with the default \<open>ttl\<close>.\<close>

definition cache_getSet :: "Gateway \<Rightarrow> string \<Rightarrow> int promise \<Rightarrow> int option promise" where
  "cache_getSet g key fcn =
     andThen (cache_exists g key) (\<lambda>ex.
       if ex then cache_get g key
       else andThen fcn (\<lambda>v. cache_set g key v 30000))"

definition onServer :: "ServerInfo \<Rightarrow> ClipData \<Rightarrow> bool" where
  "onServer server c =
     (case PoolID c of
        None \<Rightarrow> False
      | Some p \<Rightarrow> p \<noteq> 0 \<and> p \<in> set (case pools server of None \<Rightarrow> [] | Some ps \<Rightarrow> ps))"

definition getClipId :: "Gateway \<Rightarrow> QuantelStatePortClip \<Rightarrow> int promise" where
  "getClipId g clp =
     andThen
       (if \<not> truthy_num (clipId clp) \<and> title clp \<noteq> []
        then cache_getSet g (''clip.'' @ title clp @ ''.clipId'')
               (andThen (getServer g) (\<lambda>server.
                andThen (await (SearchClip (title clp)) (\<lambda>n. gw_searchClip g n (title clp)))
                  (\<lambda>foundClips.
                (case find (onServer server) foundClips of
                   None \<Rightarrow> reject (ClipNotFoundOnServer (title clp))
                 | Some foundClip \<Rightarrow>
                     andThen (assign F_clipId
                                (\<lambda>q. q\<lparr>ts_clipId := (ts_clipId q)(title clp \<mapsto> ClipID foundClip)\<rparr>))
                       (\<lambda>_. resolve (ClipID foundClip))))))
        else resolve (clipId clp))
       (\<lambda>cid. case cid of
                None \<Rightarrow> reject (UnableToDetermineClipId (title clp))
              | Some i \<Rightarrow> if i \<noteq> 0 then resolve i
                         else reject (UnableToDetermineClipId (title clp)))"

subsection \<open>loadClipFragments\<close>





subsection \<open>playClip and pauseClip\<close>

datatype jump_action = play | pause

text \<open>"Pause the playback": \<open>portStop\<close>, then the two assignments.\<close>

definition pausePlayback :: "Gateway \<Rightarrow> string \<Rightarrow> unit promise" where
  "pausePlayback g portId =
     andThen (await (PortStop portId None) (\<lambda>n. gw_portStop g n portId None)) (\<lambda>_.
     andThen (assign F_scheduledStop (onPort portId (\<lambda>tp. tp\<lparr>scheduledStop := None\<rparr>))) (\<lambda>_.
     assign F_playing (onPort portId (\<lambda>tp. tp\<lparr>playing := False\<rparr>))))"

text \<open>"Trigger the jump": \<open>portTriggerJump\<close>, then \<open>offset = jumpOffset\<close>.  The prepared jump
  is not \<open>null\<close> wherever the source gets here; were it, \<open>offset\<close> would be set to \<open>null\<close>,
  which the model leaves as the offset 0.\<close>

definition triggerJump :: "Gateway \<Rightarrow> string \<Rightarrow> int option \<Rightarrow> unit promise" where
  "triggerJump g portId jump =
     andThen (await (PortTriggerJump portId) (\<lambda>n. gw_portTriggerJump g n portId)) (\<lambda>_.
     assign F_offset
       (onPort portId (\<lambda>tp. tp\<lparr>offset := (case jump of Some j \<Rightarrow> j | None \<Rightarrow> 0)\<rparr>)))"

text \<open>"Start playing" and the scheduled stop at the last frame of the clip.\<close>

definition startPlaying :: "Gateway \<Rightarrow> string \<Rightarrow> LoadedFragments \<Rightarrow> unit promise" where
  "startPlaying g portId lf =
     andThen (await (PortPlay portId) (\<lambda>n. gw_portPlay g n portId)) (\<lambda>_.
     andThen (assign F_scheduledStop (onPort portId (\<lambda>tp. tp\<lparr>scheduledStop := None\<rparr>))) (\<lambda>_.
     andThen (assign F_playing (onPort portId (\<lambda>tp. tp\<lparr>playing := True\<rparr>))) (\<lambda>_.
     if portOutPoint lf \<noteq> 0
     then andThen (await (PortStop portId (Some (portOutPoint lf)))
                     (\<lambda>n. gw_portStop g n portId (Some (portOutPoint lf)))) (\<lambda>_.
          assign F_scheduledStop
            (onPort portId (\<lambda>tp. tp\<lparr>scheduledStop := Some (portOutPoint lf)\<rparr>)))
     else resolve ())))"

text \<open>The offset to jump to: \<open>Math.floor(portInPoint + max(0, (pauseTime || now) - playTime)
  * clipFps / 1000)\<close>, or \<open>portInPoint\<close> when there is no \<open>playTime\<close>.  The clock is read
  only when it is needed.\<close>

definition jumpTarget :: "Gateway \<Rightarrow> QuantelStatePortClip \<Rightarrow> LoadedFragments \<Rightarrow> int promise" where
  "jumpTarget g clp lf =
     (case playTime clp of
        None \<Rightarrow> resolve (portInPoint lf)
      | Some pt \<Rightarrow>
          if pt = 0 then resolve (portInPoint lf)
          else andThen (case pauseTime clp of
                          None \<Rightarrow> readClock (getCurrentTime g)
                        | Some p \<Rightarrow> if p \<noteq> 0 then resolve p else readClock (getCurrentTime g))
                 (\<lambda>t. resolve (portInPoint lf + (max 0 (t - pt) * DEFAULT_FPS) div 1000)))"

text \<open>\<open>prepareClipJump\<close>.  The wait of \<open>SOFT_JUMP_WAIT_TIME\<close> between preparing a soft jump and
  triggering it touches neither the gateway nor the tracked state, and has no step here.\<close>

definition prepareClipJump ::
  "Gateway \<Rightarrow> string \<Rightarrow> QuantelStatePortClip \<Rightarrow> QuantelControlMode \<Rightarrow> jump_action option
   \<Rightarrow> unit promise" where
  "prepareClipJump g portId clp md alsoDoAction =
     andThen (getTrackedPort portId) (\<lambda>trackedPort.
     andThen (getClipId g clp) (\<lambda>cid.
     (case loadedFragments trackedPort cid of
        None \<Rightarrow> reject (FragmentsNotLoaded cid)
      | Some lf \<Rightarrow>
     andThen (jumpTarget g clp lf) (\<lambda>jumpToOffset.
     andThen
       (if truthy_num (jumpOffset trackedPort)
           \<and> JUMP_ERROR_MARGIN < \<bar>(case jumpOffset trackedPort of Some j \<Rightarrow> j | None \<Rightarrow> 0)
                                   - jumpToOffset\<bar>
        then andThen (invalidateJump portId) (\<lambda>_. resolve None)
        else resolve (jumpOffset trackedPort)) (\<lambda>jump.
     andThen
       (if jump \<noteq> None
        then andThen (if alsoDoAction = Some pause then pausePlayback g portId else resolve ())
               (\<lambda>_. triggerJump g portId jump)
        else if md = QUALITY
        then andThen (await (PortPrepareJump portId jumpToOffset)
                        (\<lambda>n. gw_portPrepareJump g n portId jumpToOffset)) (\<lambda>_.
             andThen (assign F_jumpOffset
                        (onPort portId (\<lambda>tp. tp\<lparr>jumpOffset := Some jumpToOffset\<rparr>))) (\<lambda>_.
             andThen (if alsoDoAction = Some pause then pausePlayback g portId else resolve ())
               (\<lambda>_. triggerJump g portId (Some jumpToOffset))))
        else andThen (notAwaited (PortHardJump portId jumpToOffset)
                        (\<lambda>n. gw_portHardJump g n portId jumpToOffset)) (\<lambda>_.
             andThen (assign F_offset (onPort portId (\<lambda>tp. tp\<lparr>offset := jumpToOffset\<rparr>))) (\<lambda>_.
             assign F_playing (onPort portId (\<lambda>tp. tp\<lparr>playing := False\<rparr>))))) (\<lambda>_.
     if alsoDoAction = Some play then startPlaying g portId lf else resolve ()))))))"


definition pauseClip ::
  "Gateway \<Rightarrow> string \<Rightarrow> QuantelStatePortClip \<Rightarrow> QuantelControlMode \<Rightarrow> unit promise" where
  "pauseClip g portId clp md = prepareClipJump g portId clp md (Some pause)"

subsection \<open>Writes and acknowledgements in a history\<close>

text \<open>
  Reading a history from its start: \<open>Some True\<close> when the last protocol call was awaited
  and resolved (or its rejection excused) and only writes came after it; \<open>Some False\<close>
  when no call was made yet, or the last one was rejected or not awaited; \<open>None\<close> as soon
  as a write happens in the state \<open>Some False\<close>.
\<close>

fun ackStep :: "bool option \<Rightarrow> manager_event \<Rightarrow> bool option" where
  "ackStep None e = None"
| "ackStep (Some b) (Acked c) = Some True"
| "ackStep (Some b) (Rejected c) = Some False"
| "ackStep (Some b) Excused = Some True"
| "ackStep (Some b) (NotAwaited c) = Some False"
| "ackStep (Some b) (Wrote f) = (if b then Some True else None)"
| "ackStep (Some b) Invalidated = Some b"

definition ackState :: "manager_event list \<Rightarrow> bool option" where
  "ackState h = foldl ackStep (Some False) h"

text \<open>Every write of the history comes after a protocol call that was acknowledged, with
  nothing but writes in between.\<close>

definition writesAcked :: "manager_event list \<Rightarrow> bool" where
  "writesAcked h = (ackState h \<noteq> None)"

text \<open>
  A triple for the steps of an operation.  Started in a history without an unacknowledged
  write (and, when \<open>p\<close> holds, with the last call acknowledged), the step ends in such a
  history, whether it resolves or rejects, and when it resolves and \<open>q\<close> holds, with the
  last call acknowledged.
\<close>

definition acked :: "bool \<Rightarrow> manager_event list \<Rightarrow> bool" where
  "acked p h = (if p then ackState h = Some True else ackState h \<noteq> None)"

definition acks :: "bool \<Rightarrow> 'a promise \<Rightarrow> bool \<Rightarrow> bool" where
  "acks p m q =
     (\<forall>s. acked p (history s) \<longrightarrow>
        (case m s of
           (Inl e, s') \<Rightarrow> acked False (history s')
         | (Inr x, s') \<Rightarrow> acked q (history s')))"

text \<open>A manager that has not run anything yet.\<close>

definition newManager :: "QuantelTrackedState \<Rightarrow> Manager" where
  "newManager q =
     \<lparr>quantelState = q, cache_data = Map.empty, cache_callCount = 0, tick = 0, history = []\<rparr>"

section \<open>Example states\<close>

definition http_obj ::
  "string \<Rightarrow> string \<Rightarrow> int option \<Rightarrow> unit HTTPSendCommandContent ResolvedTimelineObjectInstance" where
  "http_obj i u p =
     \<lparr>obj_id = i,
      content = \<lparr>http_type = POST, url = u, params = None, temporalPriority = p, queueId = None\<rparr>,
      instance_start = 0, isLookahead = False, lookaheadForLayer = None\<rparr>"


definition http_new_ex :: "unit HTTPSendState" where
  "http_new_ex =
     \<lparr>time = 1000, layers = [(''A'', http_obj ''o3'' ''http://z'' (Some 2)),
                             (''B'', http_obj ''o4'' ''http://w'' None)]\<rparr>"

definition news_clip :: QuantelStatePortClip where
  "news_clip = \<lparr>title = ''NEWS'', clipId = None, clip_playing = True, playTime = Some 10000,
                pauseTime = None, inPoint = None, clip_length = None\<rparr>"

definition quantel_empty_ex :: "int \<Rightarrow> QuantelState" where
  "quantel_empty_ex t0 = \<lparr>q_time = t0, q_port = []\<rparr>"

definition quantel_new_ex :: "int \<Rightarrow> QuantelState" where
  "quantel_new_ex t =
     \<lparr>q_time = t,
      q_port = [(''P1'', \<lparr>timelineObjId = ''obj0'', clip = Some news_clip, mode = QUALITY,
                          channels = [1]\<rparr>)]\<rparr>"

text \<open>A stand-in for \<open>JSON.stringify\<close> on the example contents, which differ in their
  method and URL only.\<close>

definition stringify_ex :: "unit HTTPSendCommandContent \<Rightarrow> string" where
  "stringify_ex c =
     (case http_type c of GET \<Rightarrow> ''get'' | POST \<Rightarrow> ''post'' | PUT \<Rightarrow> ''put'' | DELETE \<Rightarrow> ''delete'')
     @ '' '' @ url c"

definition http_dev_ex :: "unit HTTPSendDevice" where
  "http_dev_ex =
     http_init \<lparr>opt_makeReadyCommands = None, opt_makeReadyDoesReset = None,
                opt_resendTime = Some 500\<rparr>
       \<lparr>makeReadyCommands = [], makeReadyDoesReset = False, resendTime = None,
        activeLayers = Map.empty\<rparr>"

definition http_added_ex :: "unit Command" where
  "http_added_ex =
     \<lparr>commandName = added, command_content = content (http_obj ''o3'' ''http://z'' (Some 2)),
      command_context = ''added: o3'', command_timelineObjId = ''o3'', layer = ''A''\<rparr>"

definition http_removed_ex :: "unit Command" where
  "http_removed_ex =
     \<lparr>commandName = removed, command_content = content (http_obj ''o2'' ''http://y'' None),
      command_context = ''removed: o2'', command_timelineObjId = ''o2'', layer = ''C''\<rparr>"

text \<open>A request that fails with \<open>ECONNRESET\<close> after 200 ms, layer A still bearing the
  fingerprint of the example command.\<close>

definition econnreset_ex :: attempt where
  "econnreset_ex =
     \<lparr>reply = RequestError (Some ''ECONNRESET''), elapsed = 200,
      layersAtRetry = [''A'' \<mapsto> ''post http://z'']\<rparr>"

definition quantel_options_ex :: QuantelOptions where
  "quantel_options_ex =
     \<lparr>gatewayUrl = Some ''http://gateway:3000'', ISAUrl = Some ''isa.local'', zoneId = None,
      serverId = Some 1100\<rparr>"

definition gateway_accepts_ex ::
  "string option \<Rightarrow> string option \<Rightarrow> string option \<Rightarrow> int option \<Rightarrow> bool" where
  "gateway_accepts_ex g i z s = True"

text \<open>A mapping of layer M1 to layer 10 of a CasparCG channel, a clip playing on M1, and a
  lookahead layer for M1 that has no mapping of its own.\<close>

definition caspar_mappings_ex :: "int \<Rightarrow> Mappings" where
  "caspar_mappings_ex c =
     [(''M1'', \<lparr>device = CASPARCG, deviceId = ''ccg0'', m_portId = None, m_channelId = None,
                m_mode = None, m_channel = Some c, m_layer = Some 10\<rparr>)]"

definition caspar_media_ex :: "string \<Rightarrow> bool \<Rightarrow> CasparContent ResolvedTimelineObjectInstance" where
  "caspar_media_ex f la =
     \<lparr>obj_id = f,
      content = \<lparr>body = MEDIA f None None None None None None None None, transitions = None,
                 mixer = None\<rparr>,
      instance_start = 1000, isLookahead = la,
      lookaheadForLayer = (if la then Some ''M1'' else None)\<rparr>"

definition caspar_timeline_ex :: "CasparContent TimelineState" where
  "caspar_timeline_ex =
     \<lparr>time = 1000, layers = [(''M1'', caspar_media_ex ''AMB'' False),
                             (''M1_lookahead'', caspar_media_ex ''NEXT'' True)]\<rparr>"

definition http_unmapped_ex :: "unit HTTPSendState" where
  "http_unmapped_ex = \<lparr>time = 0, layers = [(''L1'', http_obj ''o1'' ''http://x'' None)]\<rparr>"

definition quantel_mappings_ex :: Mappings where
  "quantel_mappings_ex =
     [(''Q1'', \<lparr>device = QUANTEL, deviceId = ''q0'', m_portId = Some ''P1'', m_channelId = Some 1,
                m_mode = None, m_channel = None, m_layer = None\<rparr>)]"

definition quantel_layer_ex :: "QuantelClipContent ResolvedTimelineObjectInstance" where
  "quantel_layer_ex =
     \<lparr>obj_id = ''obj0'',
      content = \<lparr>c_title = Some ''NEWS'', c_pauseTime = None, c_playing = None, c_inPoint = None,
                 c_length = None, c_noStarttime = False\<rparr>,
      instance_start = 10000, isLookahead = False, lookaheadForLayer = None\<rparr>"

definition quantel_timeline_ex :: "QuantelClipContent TimelineState" where
  "quantel_timeline_ex =
     \<lparr>time = 10000, layers = [(''Q1'', quantel_layer_ex), (''X1'', quantel_layer_ex)]\<rparr>"

text \<open>A gateway that prepares jumps and accepts most calls, answers 404 to \<open>releasePort\<close>,
  and rejects \<open>portTriggerJump\<close> and \<open>portClear\<close> with status 500.\<close>

definition gateway_ex :: Gateway where
  "gateway_ex =
     \<lparr>gw_getPort = (\<lambda>n p. Inr (Some \<lparr>endOfData = Some 0\<rparr>)),
      gw_createPort = (\<lambda>n p c. Inr ()),
      gw_releasePort = (\<lambda>n p. Inl (Some 404)),
      gw_getServer = (\<lambda>n. Inr (Some \<lparr>ident = 1100, pools = Some [11]\<rparr>)),
      gw_searchClip = (\<lambda>n t. Inr []),
      gw_getClip = (\<lambda>n c. Inr None),
      gw_getClipFragments = (\<lambda>n c r. Inr []),
      gw_loadFragmentsOntoPort = (\<lambda>n p f i. Inr None),
      gw_portPrepareJump = (\<lambda>n p j. Inr ()),
      gw_portTriggerJump = (\<lambda>n p. Inl (Some 500)),
      gw_portHardJump = (\<lambda>n p j. Inr ()),
      gw_portStop = (\<lambda>n p f. Inr ()),
      gw_portPlay = (\<lambda>n p. Inr ()),
      gw_portClear = (\<lambda>n p. Inl (Some 500)),
      getCurrentTime = (\<lambda>n. 0),
      dateNow = (\<lambda>n. 0)\<rparr>"

text \<open>A tracked port P1 on channel 1 with the fragments of clip 42 loaded at frame 0 and a
  jump prepared to frame 100; and the clip 42, to be played from its start.\<close>

definition tracked_port_ex :: QuantelTrackedStatePort where
  "tracked_port_ex =
     \<lparr>loadedFragments = [42 \<mapsto> \<lparr>portInPoint = 0, portOutPoint = 99, lf_inPoint = 0,
                                  lf_outPoint = 100\<rparr>],
      channel = 1, offset = 0, playing = False, jumpOffset = Some 100, scheduledStop = None\<rparr>"


definition clip42_ex :: QuantelStatePortClip where
  "clip42_ex = \<lparr>title = ''NEWS'', clipId = Some 42, clip_playing = True, playTime = None,
                pauseTime = None, inPoint = None, clip_length = None\<rparr>"

text \<open>The same tracked state without a prepared jump.\<close>

definition tracked_unprepared_ex :: QuantelTrackedState where
  "tracked_unprepared_ex =
     \<lparr>ts_clipId = Map.empty, ts_port = [''P1'' \<mapsto> tracked_port_ex\<lparr>jumpOffset := None\<rparr>]\<rparr>"

section \<open>Properties of the differs\<close>

lemma diffNewPort_times:
  "c \<in> set (diffNewPort oldState t e) \<Longrightarrow>
   cmd_time c = (if is_prepare c then prepareTime (q_time oldState) t else t)"
  by (cases e)
     (auto simp: diffNewPort_def mkCommand_def is_prepare_def Let_def
           split: option.splits if_splits)

lemma diffOldPort_times:
  "c \<in> set (diffOldPort oldState newState t e) \<Longrightarrow>
   is_prepare c \<and> cmd_time c = prepareTime (q_time oldState) t"
  by (cases e)
     (auto simp: diffOldPort_def mkCommand_def is_prepare_def split: option.splits)

lemma quantel_diffStates_times:
  "c \<in> set (quantel_diffStates oldState newState t) \<Longrightarrow>
   cmd_time c = (if is_prepare c then prepareTime (q_time oldState) t else t)"
  unfolding quantel_diffStates_def
  using diffNewPort_times diffOldPort_times by fastforce

lemma diffNewPort_self:
  "distinct (keys (q_port s)) \<Longrightarrow> e \<in> set (q_port s) \<Longrightarrow> diffNewPort s t e = []"
  by (cases e) (simp add: diffNewPort_def keys_def)

lemma diffOldPort_self:
  "distinct (keys (q_port s)) \<Longrightarrow> e \<in> set (q_port s) \<Longrightarrow> diffOldPort s s t e = []"
  by (cases e) (simp add: diffOldPort_def keys_def)

lemma concat_map_Nil: "(\<And>x. x \<in> set xs \<Longrightarrow> f x = []) \<Longrightarrow> concat (map f xs) = []"
  by (induction xs) auto

lemma quantel_diffStates_self:
  "distinct (keys (q_port s)) \<Longrightarrow> quantel_diffStates s s t = []"
  by (simp add: quantel_diffStates_def concat_map_Nil diffNewPort_self diffOldPort_self)

lemma diffNewLayer_self:
  "distinct (keys (layers s)) \<Longrightarrow> e \<in> set (layers s) \<Longrightarrow> diffNewLayer s e = []"
  by (cases e) (simp add: diffNewLayer_def keys_def)

lemma diffOldLayer_self:
  "distinct (keys (layers s)) \<Longrightarrow> e \<in> set (layers s) \<Longrightarrow> diffOldLayer s e = []"
  by (cases e) (simp add: diffOldLayer_def keys_def)

lemma http_diffStates_self:
  "distinct (keys (layers s)) \<Longrightarrow> http_diffStates collate s s = []"
  by (simp add: http_diffStates_def concat_map_Nil diffNewLayer_self diffOldLayer_self)







text \<open>
  Claim C2, as the code has it.  Every SETUPPORT, LOADCLIPFRAGMENTS and RELEASEPORT
  command of the Quantel \<open>_diffStates\<close> carries the time
  \<open>min t (max (t0 + 50) (t - 1000))\<close>, where \<open>t0\<close> is the time of the old state and \<open>t\<close>
  the transition time; every PLAYCLIP, PAUSECLIP and CLEARCLIP command carries \<open>t\<close>.
  The prepare time never exceeds \<open>t\<close>; it is at least \<open>t0\<close> whenever \<open>t0 \<le> t\<close>, and it
  is \<open>max (t0 + 50) (t - 1000)\<close> whenever \<open>t0 + 50 \<le> t\<close>.
\<close>

theorem quantel_diffStates_command_times:
  "c \<in> set (quantel_diffStates oldState newState t) \<Longrightarrow>
     (cmd_type c \<in> {SETUPPORT, LOADCLIPFRAGMENTS, RELEASEPORT} \<longrightarrow>
        cmd_time c = min t (max (q_time oldState + 50) (t - 1000)))
   \<and> (cmd_type c \<in> {PLAYCLIP, PAUSECLIP, CLEARCLIP} \<longrightarrow> cmd_time c = t)
   \<and> prepareTime (q_time oldState) t \<le> t
   \<and> (q_time oldState \<le> t \<longrightarrow> q_time oldState \<le> prepareTime (q_time oldState) t)
   \<and> (q_time oldState + 50 \<le> t \<longrightarrow>
        prepareTime (q_time oldState) t = max (q_time oldState + 50) (t - 1000))"
  using quantel_diffStates_times[of c oldState newState t]
  by (auto simp: is_prepare_def prepareTime_def IDEAL_PREPARE_TIME_def PREPARE_TIME_WAIT_def
           split: if_splits)



text \<open>
  The prepare time is not \<open>max (t0 + 50) (t - 1000)\<close> in general: with \<open>t0 = 0\<close> and
  \<open>t = 10\<close> the prepare-ahead commands carry 10, not 50; and with \<open>t0 = 1000\<close> and
  \<open>t = 500\<close> they carry 500, which precedes the old state's time.
\<close>

theorem quantel_diffStates_claimed_times_counterexample:
  "map cmd_type (quantel_diffStates (quantel_empty_ex 0) (quantel_new_ex 10) 10)
     = [SETUPPORT, LOADCLIPFRAGMENTS, PLAYCLIP]
   \<and> map cmd_time (quantel_diffStates (quantel_empty_ex 0) (quantel_new_ex 10) 10)
     = [10, 10, 10]
   \<and> max (q_time (quantel_empty_ex 0) + 50) (10 - 1000) = (50::int)
   \<and> map cmd_type (quantel_diffStates (quantel_empty_ex 1000) (quantel_new_ex 500) 500)
     = [SETUPPORT, LOADCLIPFRAGMENTS, PLAYCLIP]
   \<and> map cmd_time (quantel_diffStates (quantel_empty_ex 1000) (quantel_new_ex 500) 500)
     = [500, 500, 500]
   \<and> q_time (quantel_empty_ex 1000) = 1000"
  by (simp add: quantel_diffStates_def diffNewPort_def diffOldPort_def quantel_empty_ex_def
        quantel_new_ex_def news_clip_def mkCommand_def prepareTime_def first_def
        IDEAL_PREPARE_TIME_def PREPARE_TIME_WAIT_def)

text \<open>Port P1 set up for a clip that plays at 10000, the old state being of time 0.\<close>

theorem quantel_diffStates_command_times_witness:
  "(mkCommand SETUPPORT 9000 ''P1'' ''obj0'')\<lparr>cmd_channel := Some 1\<rparr>
     \<in> set (quantel_diffStates (quantel_empty_ex 0) (quantel_new_ex 10000) 10000)
   \<and> cmd_time ((mkCommand SETUPPORT 9000 ''P1'' ''obj0'')\<lparr>cmd_channel := Some 1\<rparr>)
       = min 10000 (max (0 + 50) (10000 - 1000))
   \<and> prepareTime (q_time (quantel_empty_ex 0)) 10000 = 9000"
proof -
  have h: "(mkCommand SETUPPORT 9000 ''P1'' ''obj0'')\<lparr>cmd_channel := Some 1\<rparr>
     \<in> set (quantel_diffStates (quantel_empty_ex 0) (quantel_new_ex 10000) 10000)"
    by (simp add: quantel_diffStates_def diffNewPort_def diffOldPort_def quantel_empty_ex_def
        quantel_new_ex_def news_clip_def mkCommand_def prepareTime_def first_def
        IDEAL_PREPARE_TIME_def PREPARE_TIME_WAIT_def)
  show ?thesis
    using h quantel_diffStates_command_times[OF h]
    by (simp add: mkCommand_def quantel_empty_ex_def)
qed

text \<open>
  Claim C4.  Diffing a device state against itself gives no command, for the HTTP
  device's timeline-shaped state and for the Quantel port state, at every time
  (the keys of each state being distinct, as those of an object are).
\<close>

theorem diffStates_self:
  "distinct (keys (layers s)) \<Longrightarrow> distinct (keys (q_port q)) \<Longrightarrow>
   http_diffStates collate s s = [] \<and> quantel_diffStates q q t = []"
  by (simp add: http_diffStates_self quantel_diffStates_self)

text \<open>C4 on the example states.\<close>

theorem diffStates_self_witness:
  "distinct (keys (layers http_new_ex)) \<and> distinct (keys (q_port (quantel_new_ex 10)))
   \<and> http_diffStates length http_new_ex http_new_ex = []
   \<and> quantel_diffStates (quantel_new_ex 10) (quantel_new_ex 10) 20 = []"
proof -
  have h1: "distinct (keys (layers http_new_ex))"
    by (simp add: http_new_ex_def keys_def)
  have h2: "distinct (keys (q_port (quantel_new_ex 10)))"
    by (simp add: quantel_new_ex_def keys_def)
  show ?thesis using h1 h2 diffStates_self[OF h1 h2, of length 20] by simp
qed

section \<open>Properties of the HTTP receiver and of the Quantel initialisation\<close>

lemma receiver_Nil_iff:
  "(defaultCommandReceiver stringify resend al cmd lay world = []) =
   noLongerRelevant stringify al cmd lay"
  by (cases world) simp_all

lemma requests_Cons [simp]:
  "requests (Request c # evs) = c # requests evs"
  "requests (EmitWarning # evs) = requests evs"
  "requests (EmitError # evs) = requests evs"
  "requests (EmitCommandError # evs) = requests evs"
  "requests (SetTimeout n # evs) = requests evs"
  "requests [] = []"
  by (simp_all add: requests_def)

lemma requests_receiver_Nil_iff:
  "(requests (defaultCommandReceiver stringify resend al cmd lay world) = []) =
   noLongerRelevant stringify al cmd lay"
  by (cases world) simp_all

text \<open>
  Claim C6, as the code has it.  The default command receiver issues no HTTP request exactly
  when it is given a non-empty layer whose fingerprint in \<open>activeLayers\<close> is absent or
  differs from the JSON text of the payload.  When the payload is unchanged with respect
  to the fingerprint, the first thing the receiver does is the request; so it is for every
  \<open>added\<close> or \<open>changed\<close> command fired from the queue, whose fingerprint the queued
  callback has just stored.
\<close>

theorem receiver_drops_iff_fingerprint_differs:
  "(requests (defaultCommandReceiver stringify resend al cmd lay world) = [])
     = (\<exists>l. lay = Some l \<and> l \<noteq> [] \<and> al l \<noteq> Some (stringify cmd))
   \<and> (al l = Some (stringify cmd) \<longrightarrow>
        hd (defaultCommandReceiver stringify resend al cmd (Some l) world) = Request cmd)
   \<and> (commandName c \<noteq> removed \<longrightarrow>
        hd (fst (fireWithDefaultReceiver stringify t c dev world)) = Request (command_content c))"
proof -
  have 1: "(requests (defaultCommandReceiver stringify resend al cmd lay world) = [])
     = (\<exists>l. lay = Some l \<and> l \<noteq> [] \<and> al l \<noteq> Some (stringify cmd))"
    by (auto simp: requests_receiver_Nil_iff noLongerRelevant_def split: option.splits)
  have 2: "al l = Some (stringify cmd) \<Longrightarrow>
        hd (defaultCommandReceiver stringify resend al cmd (Some l) world) = Request cmd"
    by (cases world) (simp_all add: noLongerRelevant_def)
  have 3: "commandName c \<noteq> removed \<Longrightarrow>
        hd (fst (fireWithDefaultReceiver stringify t c dev world)) = Request (command_content c)"
    by (cases world; cases "commandName c")
       (simp_all add: fireWithDefaultReceiver_def queuedCallback_def noLongerRelevant_def)
  show ?thesis using 1 2 3 by blast
qed

text \<open>
  C6 on the example command: sent when layer A bears its fingerprint, dropped when layer A
  bears another.
\<close>

theorem receiver_drops_iff_fingerprint_differs_witness:
  "[''A'' \<mapsto> ''post http://z''] ''A'' = Some (stringify_ex (command_content http_added_ex))
   \<and> hd (defaultCommandReceiver stringify_ex (Some 500) [''A'' \<mapsto> ''post http://z'']
          (command_content http_added_ex) (Some ''A'') []) = Request (command_content http_added_ex)
   \<and> commandName http_added_ex \<noteq> removed
   \<and> hd (fst (fireWithDefaultReceiver stringify_ex 1000 http_added_ex http_dev_ex []))
       = Request (command_content http_added_ex)
   \<and> requests (defaultCommandReceiver stringify_ex (Some 500) [''A'' \<mapsto> ''post http://other'']
          (command_content http_added_ex) (Some ''A'') []) = []"
proof -
  have h1: "[''A'' \<mapsto> ''post http://z''] ''A'' = Some (stringify_ex (command_content http_added_ex))"
    by (simp add: stringify_ex_def http_added_ex_def http_obj_def)
  have h2: "commandName http_added_ex \<noteq> removed"
    by (simp add: http_added_ex_def)
  have h3: "\<exists>l. Some ''A'' = Some l \<and> l \<noteq> [] \<and>
      [''A'' \<mapsto> ''post http://other''] l \<noteq> Some (stringify_ex (command_content http_added_ex))"
    by (simp add: stringify_ex_def http_added_ex_def http_obj_def)
  show ?thesis
    using h1 h2 h3
      receiver_drops_iff_fingerprint_differs[of stringify_ex "Some 500"
        "[''A'' \<mapsto> ''post http://z'']" "command_content http_added_ex" "Some ''A''" "[]"
        "''A''" http_added_ex 1000 http_dev_ex]
      receiver_drops_iff_fingerprint_differs[of stringify_ex "Some 500"
        "[''A'' \<mapsto> ''post http://other'']" "command_content http_added_ex" "Some ''A''" "[]"
        "''A''" http_added_ex 1000 http_dev_ex]
    by simp
qed

text \<open>
  A payload that is unchanged with respect to the fingerprint of its layer is not dropped:
  the request is issued.
\<close>

theorem unchanged_payload_is_sent_counterexample:
  "[''A'' \<mapsto> ''post http://z''] ''A'' = Some (stringify_ex (command_content http_added_ex))
   \<and> defaultCommandReceiver stringify_ex (Some 500) [''A'' \<mapsto> ''post http://z'']
        (command_content http_added_ex) (Some ''A'')
        [\<lparr>reply = Response 200, elapsed = 20, layersAtRetry = [''A'' \<mapsto> ''post http://z'']\<rparr>]
      = [Request (command_content http_added_ex)]"
  by (simp add: stringify_ex_def http_added_ex_def http_obj_def noLongerRelevant_def)

text \<open>
  Claim C10.  For a \<open>removed\<close> command the queued callback deletes the layer's fingerprint
  from \<open>activeLayers\<close> and returns \<open>null\<close>: it makes no call of the command receiver, and
  with the default receiver nothing is sent or emitted.
\<close>

theorem removed_sends_nothing:
  "commandName cmd = removed \<Longrightarrow>
     queuedCallback stringify t cmd dev
       = (None, dev\<lparr>activeLayers := (activeLayers dev)(layer cmd := None)\<rparr>)
   \<and> fireWithDefaultReceiver stringify t cmd dev world
       = ([], dev\<lparr>activeLayers := (activeLayers dev)(layer cmd := None)\<rparr>)"
  by (simp add: queuedCallback_def fireWithDefaultReceiver_def)

text \<open>
  C10 on the example \<open>removed\<close> command of layer C.
\<close>

theorem removed_sends_nothing_witness:
  "commandName http_removed_ex = removed
   \<and> queuedCallback stringify_ex 1000 http_removed_ex http_dev_ex
       = (None, http_dev_ex\<lparr>activeLayers := (activeLayers http_dev_ex)(''C'' := None)\<rparr>)
   \<and> fst (fireWithDefaultReceiver stringify_ex 1000 http_removed_ex http_dev_ex [econnreset_ex]) = []"
proof -
  have h: "commandName http_removed_ex = removed" by (simp add: http_removed_ex_def)
  show ?thesis
    using h removed_sends_nothing[OF h, of stringify_ex 1000 http_dev_ex "[econnreset_ex]"]
    by (simp add: http_removed_ex_def)
qed

lemma resendTime_http_init:
  "resendTime (http_init opts dev) =
     (case opt_resendTime opts of None \<Rightarrow> None | Some r \<Rightarrow> if 1 < r then Some r else None)"
  by (auto simp: http_init_def split: option.splits)

lemma receiver_retries_forever:
  "c \<in> set retryCodes \<Longrightarrow> 1 < r \<Longrightarrow> \<not> noLongerRelevant stringify al cmd lay \<Longrightarrow>
   requests (defaultCommandReceiver stringify (Some r) al cmd lay
      (replicate n \<lparr>reply = RequestError (Some c), elapsed = e, layersAtRetry = al\<rparr>))
     = replicate (Suc n) cmd"
  by (induction n) simp_all

text \<open>
  Claim C5, as the code has it.  When the request of a command that is still relevant fails,
  the receiver emits \<open>error\<close> and \<open>commandError\<close>; it goes on exactly when the error has a
  code among the nine retry codes and \<open>init\<close> was given a \<open>resendTime\<close> above 1: it then
  waits \<open>max (resendTime - elapsed) 0\<close> ms and runs the whole receiver again, relevance
  check and retry included.  So a retry that fails is retried in turn: against \<open>n\<close>
  failures with a retry code, the fingerprint staying in place, \<open>n + 1\<close> requests go out.
\<close>

theorem defaultCommandReceiver_retry:
  assumes "\<not> noLongerRelevant stringify al cmd lay"
  shows "defaultCommandReceiver stringify (resendTime (http_init opts dev)) al cmd lay
           (\<lparr>reply = RequestError code, elapsed = e, layersAtRetry = al'\<rparr> # world)
         = Request cmd # EmitError # EmitCommandError #
           (case (code, opt_resendTime opts) of
              (Some c, Some r) \<Rightarrow>
                if c \<in> set retryCodes \<and> 1 < r
                then SetTimeout (max (r - e) 0) #
                     defaultCommandReceiver stringify (resendTime (http_init opts dev)) al' cmd lay world
                else []
            | _ \<Rightarrow> [])
       \<and> (\<forall>c r n. c \<in> set retryCodes \<and> 1 < r \<longrightarrow>
            requests (defaultCommandReceiver stringify (Some r) al cmd lay
               (replicate n \<lparr>reply = RequestError (Some c), elapsed = e, layersAtRetry = al\<rparr>))
            = replicate (Suc n) cmd)"
proof -
  have 1: "defaultCommandReceiver stringify (resendTime (http_init opts dev)) al cmd lay
           (\<lparr>reply = RequestError code, elapsed = e, layersAtRetry = al'\<rparr> # world)
         = Request cmd # EmitError # EmitCommandError #
           (case (code, opt_resendTime opts) of
              (Some c, Some r) \<Rightarrow>
                if c \<in> set retryCodes \<and> 1 < r
                then SetTimeout (max (r - e) 0) #
                     defaultCommandReceiver stringify (resendTime (http_init opts dev)) al' cmd lay world
                else []
            | _ \<Rightarrow> [])"
    using assms by (simp add: resendTime_http_init split: option.splits)
  show ?thesis using 1 receiver_retries_forever[OF _ _ assms] by blast
qed

text \<open>
  C5 with \<open>resendTime = 500\<close> and an \<open>ECONNRESET\<close> after 200 ms: the resend follows after
  300 ms.
\<close>

theorem defaultCommandReceiver_retry_witness:
  "\<not> noLongerRelevant stringify_ex [''A'' \<mapsto> ''post http://z''] (command_content http_added_ex) (Some ''A'')
   \<and> defaultCommandReceiver stringify_ex (resendTime http_dev_ex) [''A'' \<mapsto> ''post http://z'']
        (command_content http_added_ex) (Some ''A'')
        [\<lparr>reply = RequestError (Some ''ECONNRESET''), elapsed = 200,
          layersAtRetry = [''A'' \<mapsto> ''post http://z'']\<rparr>]
      = [Request (command_content http_added_ex), EmitError, EmitCommandError, SetTimeout 300,
         Request (command_content http_added_ex)]"
proof -
  have h: "\<not> noLongerRelevant stringify_ex [''A'' \<mapsto> ''post http://z'']
              (command_content http_added_ex) (Some ''A'')"
    by (simp add: noLongerRelevant_def stringify_ex_def http_added_ex_def http_obj_def)
  show ?thesis
    using h defaultCommandReceiver_retry[OF h, of
        "\<lparr>opt_makeReadyCommands = None, opt_makeReadyDoesReset = None, opt_resendTime = Some 500\<rparr>"
        "\<lparr>makeReadyCommands = [], makeReadyDoesReset = False, resendTime = None,
          activeLayers = Map.empty\<rparr>"
        "Some ''ECONNRESET''" 200 "[''A'' \<mapsto> ''post http://z'']" "[]"]
    by (simp add: http_dev_ex_def http_init_def retryCodes_def)
qed

text \<open>
  The retry is not bounded to one wave: fired from the queue, with two \<open>ECONNRESET\<close>
  failures in a row, the command is requested three times.
\<close>

theorem retry_of_retry_counterexample:
  "fst (fireWithDefaultReceiver stringify_ex 1000 http_added_ex http_dev_ex
          [econnreset_ex, econnreset_ex])
     = [Request (command_content http_added_ex), EmitError, EmitCommandError, SetTimeout 300,
        Request (command_content http_added_ex), EmitError, EmitCommandError, SetTimeout 300,
        Request (command_content http_added_ex)]"
  by (simp add: fireWithDefaultReceiver_def queuedCallback_def http_dev_ex_def http_init_def
        econnreset_ex_def noLongerRelevant_def stringify_ex_def http_added_ex_def http_obj_def
        retryCodes_def)

text \<open>
  Claim C9, as the code has it.  \<open>QuantelDevice.init\<close> throws without contacting the gateway
  exactly when one of \<open>gatewayUrl\<close>, \<open>ISAUrl\<close>, \<open>serverId\<close> is missing (falsy); otherwise
  its first call is the gateway's \<open>init\<close>, given the four options as they are, \<open>zoneId\<close>
  present or not; it returns \<open>true\<close> exactly when the three are present and the gateway
  accepts.
\<close>

theorem quantel_init_guards:
  "(fst (quantel_init gatewayAccepts opts) = [])
     = (\<not> truthy_str (gatewayUrl opts) \<or> \<not> truthy_str (ISAUrl opts) \<or> \<not> truthy_num (serverId opts))
   \<and> (fst (quantel_init gatewayAccepts opts) = [] \<longrightarrow> isl (snd (quantel_init gatewayAccepts opts)))
   \<and> (fst (quantel_init gatewayAccepts opts) \<noteq> [] \<longrightarrow>
        hd (fst (quantel_init gatewayAccepts opts))
          = GatewayInit (gatewayUrl opts) (ISAUrl opts) (zoneId opts) (serverId opts))
   \<and> (snd (quantel_init gatewayAccepts opts) = Inr True) =
       (truthy_str (gatewayUrl opts) \<and> truthy_str (ISAUrl opts) \<and> truthy_num (serverId opts)
        \<and> gatewayAccepts (gatewayUrl opts) (ISAUrl opts) (zoneId opts) (serverId opts))"
  by (simp add: quantel_init_def)

text \<open>
  C9 on the example options, with and without \<open>serverId\<close>.
\<close>

theorem quantel_init_guards_witness:
  "fst (quantel_init gateway_accepts_ex (quantel_options_ex\<lparr>serverId := None\<rparr>)) = []
   \<and> isl (snd (quantel_init gateway_accepts_ex (quantel_options_ex\<lparr>serverId := None\<rparr>)))
   \<and> fst (quantel_init gateway_accepts_ex quantel_options_ex) \<noteq> []
   \<and> hd (fst (quantel_init gateway_accepts_ex quantel_options_ex))
       = GatewayInit (Some ''http://gateway:3000'') (Some ''isa.local'') None (Some 1100)"
  using quantel_init_guards[of gateway_accepts_ex "quantel_options_ex\<lparr>serverId := None\<rparr>"]
    quantel_init_guards[of gateway_accepts_ex quantel_options_ex]
  by (simp add: quantel_options_ex_def)

text \<open>
  With \<open>zoneId\<close> missing and the other three options present, \<open>init\<close> does not throw:
  it initialises the gateway and returns \<open>true\<close>.
\<close>

theorem quantel_init_without_zoneId_counterexample:
  "zoneId quantel_options_ex = None
   \<and> quantel_init gateway_accepts_ex quantel_options_ex
       = ([GatewayInit (Some ''http://gateway:3000'') (Some ''isa.local'') None (Some 1100),
           MonitorServerStatus], Inr True)"
  by (simp add: quantel_init_def quantel_options_ex_def gateway_accepts_ex_def)

section \<open>Properties of the projectors\<close>

lemma convertLayer_unmapped:
  "\<not> hasQuantelMapping mappings e \<Longrightarrow> convertLayer mappings state e = Inr state"
  by (cases e) (auto simp: convertLayer_def hasQuantelMapping_def split: option.splits)

lemma convertLayers_filter:
  "convertLayers mappings (filter (hasQuantelMapping mappings) ls) state
     = convertLayers mappings ls state"
  by (induction ls arbitrary: state) (simp_all add: convertLayer_unmapped split: sum.splits)

lemma convertCasparLayer_unmapped:
  "(case resolveMapping mappings n l of None \<Rightarrow> True | Some m \<Rightarrow> \<not> isCasparMapping m) \<Longrightarrow>
   convertCasparLayer mappings caspar (n, l) = caspar"
  by (simp add: convertCasparLayer_def split: option.splits)

text \<open>
  Claim C7, as the code has it.  The Quantel projector gives the same result on a timeline
  and on that timeline without the layers that have no Quantel mapping, and its step for
  such a layer leaves the state as it is; the step of the CasparCG projector leaves the
  state as it is for a layer whose mapping (its own or, for a lookahead, that of
  \<open>lookaheadForLayer\<close>) does not exist or is not a CasparCG mapping.  The HTTP projector
  returns the timeline state as it is, whatever the mappings.
\<close>

theorem unmapped_layers_ignored:
  "convertStateToQuantel mappings
       (timelineState\<lparr>layers := filter (hasQuantelMapping mappings) (layers timelineState)\<rparr>)
     = convertStateToQuantel mappings timelineState
   \<and> (\<not> hasQuantelMapping mappings e \<longrightarrow> convertLayer mappings state e = Inr state)
   \<and> ((case resolveMapping mappings n l of None \<Rightarrow> True | Some m \<Rightarrow> \<not> isCasparMapping m) \<longrightarrow>
        convertCasparLayer mappings caspar (n, l) = caspar)
   \<and> convertStateToHttpSend mappings' httpState = httpState"
  by (simp add: convertStateToQuantel_def convertLayers_filter convertLayer_unmapped
        convertCasparLayer_unmapped convertStateToHttpSend_def)

text \<open>
  C7 on the examples: layer X1 has no mapping and adds nothing to the Quantel state of
  layer Q1, nor to an empty CasparCG state.
\<close>

theorem unmapped_layers_ignored_witness:
  "\<not> hasQuantelMapping quantel_mappings_ex (''X1'', quantel_layer_ex)
   \<and> convertLayer quantel_mappings_ex (quantel_new_ex 10000) (''X1'', quantel_layer_ex)
       = Inr (quantel_new_ex 10000)
   \<and> resolveMapping (caspar_mappings_ex 1) ''X1'' (caspar_media_ex ''AMB'' False) = None
   \<and> convertCasparLayer (caspar_mappings_ex 1) \<lparr>channels = Map.empty\<rparr>
        (''X1'', caspar_media_ex ''AMB'' False) = \<lparr>channels = Map.empty\<rparr>
   \<and> convertStateToQuantel quantel_mappings_ex quantel_timeline_ex
       = convertStateToQuantel quantel_mappings_ex
           (quantel_timeline_ex\<lparr>layers := [(''Q1'', quantel_layer_ex)]\<rparr>)
   \<and> convertStateToQuantel quantel_mappings_ex quantel_timeline_ex = Inr (quantel_new_ex 10000)"
proof -
  have h1: "\<not> hasQuantelMapping quantel_mappings_ex (''X1'', quantel_layer_ex)"
    by (simp add: hasQuantelMapping_def quantel_mappings_ex_def)
  have h2: "resolveMapping (caspar_mappings_ex 1) ''X1'' (caspar_media_ex ''AMB'' False) = None"
    by (simp add: resolveMapping_def caspar_mappings_ex_def caspar_media_ex_def)
  have f: "filter (hasQuantelMapping quantel_mappings_ex) (layers quantel_timeline_ex)
           = [(''Q1'', quantel_layer_ex)]"
    by (simp add: hasQuantelMapping_def quantel_mappings_ex_def quantel_timeline_ex_def
          isQuantelMapping_def)
  have r: "convertStateToQuantel quantel_mappings_ex
             (quantel_timeline_ex\<lparr>layers := [(''Q1'', quantel_layer_ex)]\<rparr>)
           = Inr (quantel_new_ex 10000)"
    by (simp add: convertStateToQuantel_def convertLayer_def portFromMapping_def
          quantel_mappings_ex_def quantel_timeline_ex_def quantel_layer_ex_def
          quantel_new_ex_def news_clip_def isQuantelMapping_def)
  show ?thesis
    using h1 h2 r
      unmapped_layers_ignored[where mappings = quantel_mappings_ex
        and timelineState = quantel_timeline_ex and e = "(''X1'', quantel_layer_ex)"
        and state = "quantel_new_ex 10000" and n = "''X1''" and l = "caspar_media_ex ''AMB'' False"
        and caspar = "\<lparr>channels = Map.empty\<rparr>" and mappings' = "[]::unit dict"
        and httpState = http_unmapped_ex]
      unmapped_layers_ignored[where mappings = "caspar_mappings_ex 1"
        and timelineState = quantel_timeline_ex and e = "(''X1'', quantel_layer_ex)"
        and state = "quantel_new_ex 10000" and n = "''X1''" and l = "caspar_media_ex ''AMB'' False"
        and caspar = "\<lparr>channels = Map.empty\<rparr>" and mappings' = "[]::unit dict"
        and httpState = http_unmapped_ex]
    by (simp add: f)
qed

text \<open>
  The HTTP projector does not ignore a layer without mapping: with no mapping at all,
  layer L1 is in the device state.
\<close>

theorem http_projector_keeps_unmapped_layer_counterexample:
  "map_of ([] :: Mapping dict) ''L1'' = None
   \<and> layers (convertStateToHttpSend ([] :: Mapping dict) http_unmapped_ex)
       = [(''L1'', http_obj ''o1'' ''http://x'' None)]"
  by (simp add: convertStateToHttpSend_def http_unmapped_ex_def)

text \<open>
  On a channel other than 0 a lookahead layer fills the \<open>nextUp\<close> slot of the layer found at
  its mapping's channel and layer, the rest of that layer staying as it is, and of a new
  empty layer when none is found.
\<close>

lemma layerAt_convertCasparLayer_lookahead:
  assumes "isLookahead l" and "resolveMapping mappings n l = Some m" and "isCasparMapping m"
    and "mappingChannel m \<noteq> 0"
  shows "layerAt (convertCasparLayer mappings caspar (n, l)) (mappingChannel m) (mappingLayer m)
         = Some (case layerAt caspar (mappingChannel m) (mappingLayer m) of
                   None \<Rightarrow> \<lparr>sl_layer = emptyLayer (mappingLayer m),
                             nextUp = Some \<lparr>nu_layer = makeStateLayer mappings (mappingLayer m) l,
                                            auto = False\<rparr>\<rparr>
                 | Some fg \<Rightarrow>
                     fg\<lparr>nextUp := Some \<lparr>nu_layer = makeStateLayer mappings (mappingLayer m) l,
                                         auto = False\<rparr>\<rparr>)"
  using assms
  by (simp add: convertCasparLayer_def layerAt_def newChannel_def Let_def split: option.splits)

text \<open>
  On a channel other than 0 a foreground layer takes the place of the layer found at its
  mapping's channel and layer, and keeps that layer's \<open>nextUp\<close>.
\<close>

lemma layerAt_convertCasparLayer_foreground:
  assumes "\<not> isLookahead l" and "resolveMapping mappings n l = Some m" and "isCasparMapping m"
    and "mappingChannel m \<noteq> 0"
  shows "layerAt (convertCasparLayer mappings caspar (n, l)) (mappingChannel m) (mappingLayer m)
         = Some \<lparr>sl_layer = makeStateLayer mappings (mappingLayer m) l,
                 nextUp = (case layerAt caspar (mappingChannel m) (mappingLayer m) of
                             None \<Rightarrow> None | Some prev \<Rightarrow> nextUp prev)\<rparr>"
  using assms
  by (simp add: convertCasparLayer_def layerAt_def newChannel_def Let_def split: option.splits)

text \<open>
  The example timeline on channel 1: the clip of M1 with the lookahead as its \<open>nextUp\<close>.
\<close>

theorem lookahead_on_channel_1:
  "layerAt (convertStateToCaspar (caspar_mappings_ex 1) caspar_timeline_ex) 1 10
     = Some \<lparr>sl_layer = makeStateLayer (caspar_mappings_ex 1) 10 (caspar_media_ex ''AMB'' False),
             nextUp = Some \<lparr>nu_layer = makeStateLayer (caspar_mappings_ex 1) 10
                                         (caspar_media_ex ''NEXT'' True),
                            auto = False\<rparr>\<rparr>"
  by (simp add: convertStateToCaspar_def convertCasparLayer_def caspar_timeline_ex_def
        caspar_mappings_ex_def caspar_media_ex_def resolveMapping_def isCasparMapping_def
        mappingChannel_def mappingLayer_def layerAt_def newChannel_def Let_def)

text \<open>
  Claim C8, at a mapping on channel 0.  The projector looks the channel up under key 0 and
  stores it under number 1, so each layer starts from a new channel: the lookahead for M1
  ends up as the \<open>nextUp\<close> of a new empty layer, and the clip of M1, projected just
  before (last line: it is there without the lookahead), is gone from the state.
\<close>

theorem lookahead_on_channel_0_drops_foreground:
  "layerAt (convertStateToCaspar (caspar_mappings_ex 0) caspar_timeline_ex) 1 10
     = Some \<lparr>sl_layer = emptyLayer 10,
             nextUp = Some \<lparr>nu_layer = makeStateLayer (caspar_mappings_ex 0) 10
                                         (caspar_media_ex ''NEXT'' True),
                            auto = False\<rparr>\<rparr>
   \<and> layerAt (convertStateToCaspar (caspar_mappings_ex 0) caspar_timeline_ex) 0 10 = None
   \<and> layerAt (convertStateToCaspar (caspar_mappings_ex 0)
               (caspar_timeline_ex\<lparr>layers := [(''M1'', caspar_media_ex ''AMB'' False)]\<rparr>)) 1 10
     = Some \<lparr>sl_layer = makeStateLayer (caspar_mappings_ex 0) 10 (caspar_media_ex ''AMB'' False),
             nextUp = None\<rparr>"
  by (simp add: convertStateToCaspar_def convertCasparLayer_def caspar_timeline_ex_def
        caspar_mappings_ex_def caspar_media_ex_def resolveMapping_def isCasparMapping_def
        mappingChannel_def mappingLayer_def layerAt_def newChannel_def Let_def)

section \<open>Properties of the Quantel manager\<close>

lemma ackState_snoc: "ackState (h @ [e]) = ackStep (ackState h) e"
  by (simp add: ackState_def)

lemma acked_weaken: "acked p h \<Longrightarrow> acked False h"
  by (cases p) (simp_all add: acked_def)

lemma acked_True: "acked True h \<Longrightarrow> acked q h"
  by (cases q) (simp_all add: acked_def)

lemma acksI:
  "(\<And>s r s'. acked p (history s) \<Longrightarrow> m s = (r, s') \<Longrightarrow>
      (case r of Inl e \<Rightarrow> acked False (history s') | Inr x \<Rightarrow> acked q (history s')))
   \<Longrightarrow> acks p m q"
  unfolding acks_def by (auto split: prod.splits sum.splits)

lemma acksD_Inl: "acks p m q \<Longrightarrow> acked p (history s) \<Longrightarrow> m s = (Inl e, s') \<Longrightarrow> acked False (history s')"
  unfolding acks_def by (drule spec[where x=s]) simp

lemma acksD_Inr: "acks p m q \<Longrightarrow> acked p (history s) \<Longrightarrow> m s = (Inr x, s') \<Longrightarrow> acked q (history s')"
  unfolding acks_def by (drule spec[where x=s]) simp

lemma acks_pre: "acks False m q \<Longrightarrow> acks p m q"
  by (rule acksI) (auto split: sum.splits dest: acksD_Inl acksD_Inr acked_weaken)

lemma acks_post: "acks p m True \<Longrightarrow> acks p m q"
  by (rule acksI) (auto split: sum.splits dest: acksD_Inl acksD_Inr acked_True)








lemma acks_notAwaited: "acks p (notAwaited c a) False"
  by (rule acksI, cases p) (auto simp: notAwaited_def acked_def ackState_snoc)

lemma acks_excuse: "acks p excuse True"
  by (rule acksI, cases p) (auto simp: excuse_def acked_def ackState_snoc)

lemma acks_state: "(\<And>s. acks p (f s) q) \<Longrightarrow> acks p (\<lambda>s. f s s) q"
  by (simp add: acks_def)
































lemmas manager_simps = andThen_def tryCatch_def await_def notAwaited_def readClock_def resolve_def
  reject_def assign_def invalidateJump_def excuse_def onPort_def getTrackedPort_def
  newManager_def






text \<open>
  In SPEED mode, without a prepared jump, \<open>portHardJump\<close> is called and not awaited, and
  \<open>offset\<close> and \<open>playing\<close> are written at once: these writes follow no acknowledgement.
\<close>

lemma hard_jump_ex:
  "history (snd (pauseClip gateway_ex ''P1'' clip42_ex SPEED (newManager tracked_unprepared_ex)))
     = [NotAwaited (PortHardJump ''P1'' 0), Wrote F_offset, Wrote F_playing]
   \<and> \<not> writesAcked (history (snd (pauseClip gateway_ex ''P1'' clip42_ex SPEED
                                    (newManager tracked_unprepared_ex))))"
proof -
  have "history (snd (pauseClip gateway_ex ''P1'' clip42_ex SPEED (newManager tracked_unprepared_ex)))
     = [NotAwaited (PortHardJump ''P1'' 0), Wrote F_offset, Wrote F_playing]"
    by (simp add: pauseClip_def prepareClipJump_def getClipId_def jumpTarget_def manager_simps
          gateway_ex_def tracked_unprepared_ex_def tracked_port_ex_def clip42_ex_def)
  then show ?thesis by (simp add: writesAcked_def ackState_def)
qed

end
